theory Spec2Isabelle
  imports Main "HOL-Library.Sublist"
begin

section \<open>The channels node of the visual-editing repository\<close>

text \<open>
  This theory embeds \<^verbatim>\<open>packages/channels/src/node.ts\<close> (function
  \<^verbatim>\<open>createChannelsNode\<close> and the closures it creates) and settles the
  properties of the protocol against it.

  The closures of \<^verbatim>\<open>createChannelsNode\<close> share the mutable object
  \<^verbatim>\<open>channel\<close>; every closure is a function from the node's state to an
  optional exception and the state the call leaves behind. What the node does to
  its surroundings (messages posted to the peer, calls of the two callbacks of
  \<^verbatim>\<open>config\<close>, lines written with \<^verbatim>\<open>console.error\<close>, the window listener) is
  recorded in the same state.
\<close>

subsection \<open>JavaScript values\<close>

text \<open>
  The payloads and the fields of an inbound envelope are of TypeScript type
  \<^verbatim>\<open>any\<close>: values that survived the structured clone of \<^verbatim>\<open>postMessage\<close>.
  Objects and arrays are lists of properties. Numbers are restricted to the
  integers (no \<^verbatim>\<open>NaN\<close>).
\<close>

datatype jsval =
    JUndefined
  | JNull
  | JBool bool
  | JNum int
  | JStr string
  | JObj "(string \<times> jsval) list"

text \<open>JavaScript's truthiness, as tested by \<^verbatim>\<open>&&\<close> and \<^verbatim>\<open>if\<close>.\<close>

fun truthy :: "jsval \<Rightarrow> bool" where
  "truthy JUndefined = False"
| "truthy JNull = False"
| "truthy (JBool b) = b"
| "truthy (JNum n) = (n \<noteq> 0)"
| "truthy (JStr s) = (s \<noteq> [])"
| "truthy (JObj fs) = True"

text \<open>
  Strict equality \<^verbatim>\<open>===\<close>. Primitives are compared by value. Objects are
  compared by reference: the two operands of every \<^verbatim>\<open>===\<close> of the node come
  from different message events (or one is a string literal), and each message
  event carries its own clone, so two objects are never the same reference.
\<close>

fun strict_eq :: "jsval \<Rightarrow> jsval \<Rightarrow> bool" where
  "strict_eq JUndefined JUndefined = True"
| "strict_eq JNull JNull = True"
| "strict_eq (JBool a) (JBool b) = (a = b)"
| "strict_eq (JNum a) (JNum b) = (a = b)"
| "strict_eq (JStr a) (JStr b) = (a = b)"
| "strict_eq _ _ = False"

datatype error =
    TypeError
  | PostMessageFailed nat string

text \<open>
  Reading a property. On \<^verbatim>\<open>null\<close> and \<^verbatim>\<open>undefined\<close> JavaScript throws a
  \<^verbatim>\<open>TypeError\<close>; on an object without the property, and on a boolean, number
  or string (none of the properties the node reads exists on their prototypes),
  the result is \<^verbatim>\<open>undefined\<close>.
\<close>

fun nullish :: "jsval \<Rightarrow> bool" where
  "nullish JUndefined = True"
| "nullish JNull = True"
| "nullish _ = False"

fun js_get :: "jsval \<Rightarrow> string \<Rightarrow> jsval" where
  "js_get (JObj fs) k = (case map_of fs k of None \<Rightarrow> JUndefined | Some v \<Rightarrow> v)"
| "js_get _ k = JUndefined"

definition get_prop :: "jsval \<Rightarrow> string \<Rightarrow> error + jsval" where
  "get_prop v k = (if nullish v then Inl TypeError else Inr (js_get v k))"

subsection \<open>The data of the node\<close>

text \<open>
  Modelled from the spec: \<^verbatim>\<open>types.ts\<close> is not among the sources, so the
  declaration of \<^verbatim>\<open>ChannelStatus\<close> is missing. The constructors are the
  statuses the spec lists for the status callback; \<^verbatim>\<open>node.ts\<close> itself names
  the first four.
\<close>

datatype ChannelStatus = Connecting | Connected | Reconnecting | Disconnected | Unhealthy

text \<open>
  A \<^verbatim>\<open>MessageEvent\<close>: its data, the sender's origin, and the reference to
  the sender (\<^verbatim>\<open>e.source\<close>, which may be \<^verbatim>\<open>null\<close>). A sender reference is
  an opaque identity, a natural number here.
\<close>

record MessageEvent =
  ev_data :: jsval
  ev_origin :: string
  ev_source :: "nat option"

text \<open>
  \<^verbatim>\<open>ProtocolMsg\<close>, the envelope that \<^verbatim>\<open>send\<close> builds. The field
  \<^verbatim>\<open>id\<close> is the result of \<^verbatim>\<open>uuid()\<close>: the number of the call of
  \<^verbatim>\<open>uuid\<close> that produced it.
\<close>

record ProtocolMsg =
  msg_connectionId :: jsval
  msg_data :: jsval
  msg_domain :: string
  msg_from :: string
  msg_id :: nat
  msg_to :: string
  msg_type :: string

text \<open>\<^verbatim>\<open>ChannelsNodeChannel\<close>, the object \<^verbatim>\<open>channel\<close>.\<close>

record ChannelsNodeChannel =
  ch_buffer :: "(string \<times> jsval) list"
  ch_id :: jsval
  ch_origin :: "string option"
  ch_source :: "nat option"
  ch_status :: ChannelStatus

text \<open>
  \<^verbatim>\<open>ChannelsNodeOptions\<close>, the argument \<^verbatim>\<open>config\<close>. The two callbacks are
  optional; the booleans say whether they are given. A callback only observes:
  it does not call back into the node.
\<close>

record ChannelsNodeOptions =
  cfg_id :: string
  cfg_connectTo :: string
  cfg_onEvent :: bool
  cfg_onStatusUpdate :: bool

text \<open>
  \<^verbatim>\<open>helpers.ts\<close> is not among the sources: the three predicates that
  \<^verbatim>\<open>node.ts\<close> imports from it are parameters of the model, and so is the
  behaviour of the transport, \<^verbatim>\<open>postMessage_throws s m o\<close> saying whether
  \<^verbatim>\<open>s.postMessage(m, {targetOrigin: o})\<close> throws.
\<close>

record helpers =
  isHandshakeMessage :: "jsval \<Rightarrow> bool"
  isInternalMessage :: "jsval \<Rightarrow> bool"
  isLegacyHandshakeMessage :: "MessageEvent \<Rightarrow> bool"
  postMessage_throws :: "nat \<Rightarrow> ProtocolMsg \<Rightarrow> string \<Rightarrow> bool"

text \<open>
  The state of one node: the object \<^verbatim>\<open>channel\<close>, and the trace of what the
  node has done: the envelopes posted (with the sink and the target origin),
  the calls of \<^verbatim>\<open>config.onEvent\<close> and \<^verbatim>\<open>config.onStatusUpdate\<close>, the
  number of \<^verbatim>\<open>console.error\<close> lines, the number of \<^verbatim>\<open>uuid()\<close> calls, and
  whether \<^verbatim>\<open>handleEvents\<close> is registered on the window.
\<close>

record node =
  channel :: ChannelsNodeChannel
  posted :: "(nat \<times> ProtocolMsg \<times> string) list"
  onEvent_calls :: "(jsval \<times> jsval) list"
  onStatusUpdate_calls :: "ChannelStatus list"
  console_errors :: nat
  uuid_calls :: nat
  listening :: bool

subsection \<open>send and flush\<close>

text \<open>
  The condition \<^verbatim>\<open>channel.id && channel.origin && channel.source\<close> of
  \<^verbatim>\<open>send\<close>.
\<close>

definition can_transmit :: "ChannelsNodeChannel \<Rightarrow> bool" where
  "can_transmit ch \<longleftrightarrow>
     truthy (ch_id ch) \<and>
     (case ch_origin ch of None \<Rightarrow> False | Some og \<Rightarrow> og \<noteq> []) \<and>
     ch_source ch \<noteq> None"

definition send :: "helpers \<Rightarrow> ChannelsNodeOptions \<Rightarrow> string \<Rightarrow> jsval \<Rightarrow> node \<Rightarrow> error option \<times> node" where
  "send h cfg ty dat w =
     (let ch = channel w in
      if \<not> isHandshakeMessage h (JStr ty) \<and> \<not> isInternalMessage h (JStr ty) \<and>
         (ch_status ch = Connecting \<or> ch_status ch = Reconnecting)
      then (None, w\<lparr>channel := ch\<lparr>ch_buffer := ch_buffer ch @ [(ty, dat)]\<rparr>\<rparr>)
      else if can_transmit ch then
        (let msg = \<lparr>msg_connectionId = ch_id ch, msg_data = dat,
                    msg_domain = ''sanity/channels'', msg_from = cfg_id cfg,
                    msg_id = uuid_calls w, msg_to = cfg_connectTo cfg, msg_type = ty\<rparr>;
             w1 = w\<lparr>uuid_calls := Suc (uuid_calls w)\<rparr>
         in if postMessage_throws h (the (ch_source ch)) msg (the (ch_origin ch))
            then (Some (PostMessageFailed (msg_id msg) (cfg_id cfg)), w1)
            else (None, w1\<lparr>posted := posted w1 @ [(the (ch_source ch), msg, the (ch_origin ch))]\<rparr>))
      else (None, w))"

text \<open>
  \<^verbatim>\<open>toFlush.forEach(({type, data}) => send(type, data))\<close>: an exception of
  \<^verbatim>\<open>send\<close> ends the loop.
\<close>

fun send_each :: "helpers \<Rightarrow> ChannelsNodeOptions \<Rightarrow> (string \<times> jsval) list \<Rightarrow> node \<Rightarrow> error option \<times> node" where
  "send_each h cfg [] w = (None, w)"
| "send_each h cfg ((ty, dat) # rest) w =
     (case send h cfg ty dat w of
        (Some err, w1) \<Rightarrow> (Some err, w1)
      | (None, w1) \<Rightarrow> send_each h cfg rest w1)"

definition flush :: "helpers \<Rightarrow> ChannelsNodeOptions \<Rightarrow> node \<Rightarrow> error option \<times> node" where
  "flush h cfg w =
     (let toFlush = ch_buffer (channel w);
          w1 = w\<lparr>channel := (channel w)\<lparr>ch_buffer := []\<rparr>\<rparr>
      in send_each h cfg toFlush w1)"

definition setConnectionStatus :: "helpers \<Rightarrow> ChannelsNodeOptions \<Rightarrow> ChannelStatus \<Rightarrow> node \<Rightarrow> error option \<times> node" where
  "setConnectionStatus h cfg next w =
     (let w1 = w\<lparr>channel := (channel w)\<lparr>ch_status := next\<rparr>\<rparr>;
          w2 = (if cfg_onStatusUpdate cfg
                then w1\<lparr>onStatusUpdate_calls := onStatusUpdate_calls w1 @ [next]\<rparr>
                else w1)
      in if next = Connected then flush h cfg w2 else (None, w2))"

subsection \<open>The inbound handler\<close>

definition isValidMessageEvent :: "ChannelsNodeOptions \<Rightarrow> MessageEvent \<Rightarrow> error + bool" where
  "isValidMessageEvent cfg e =
     (let dat = ev_data e in
      case get_prop dat ''domain'' of
        Inl err \<Rightarrow> Inl err
      | Inr tag \<Rightarrow>
          Inr (strict_eq tag (JStr ''sanity/channels'') \<and>
               strict_eq (js_get dat ''to'') (JStr (cfg_id cfg)) \<and>
               strict_eq (js_get dat ''from'') (JStr (cfg_connectTo cfg)) \<and>
               \<not> strict_eq (js_get dat ''type'') (JStr ''channel/response'')))"

text \<open>
  \<^verbatim>\<open>channel.origin && e.origin !== channel.origin\<close>: the pinned origin is
  tested for truthiness, so the empty string counts as not pinned.
\<close>

definition origin_mismatch :: "ChannelsNodeChannel \<Rightarrow> MessageEvent \<Rightarrow> bool" where
  "origin_mismatch ch e \<longleftrightarrow>
     (case ch_origin ch of None \<Rightarrow> False | Some og \<Rightarrow> og \<noteq> [] \<and> ev_origin e \<noteq> og)"

text \<open>\<^verbatim>\<open>if (e.source && channel.source !== e.source) channel.source = e.source\<close>\<close>

definition update_source :: "MessageEvent \<Rightarrow> node \<Rightarrow> node" where
  "update_source e w =
     (if ev_source e \<noteq> None \<and> ch_source (channel w) \<noteq> ev_source e
      then w\<lparr>channel := (channel w)\<lparr>ch_source := ev_source e\<rparr>\<rparr>
      else w)"

definition handleEvents :: "helpers \<Rightarrow> ChannelsNodeOptions \<Rightarrow> MessageEvent \<Rightarrow> node \<Rightarrow> error option \<times> node" where
  "handleEvents h cfg e w =
     (if isLegacyHandshakeMessage h e
      then (None, w\<lparr>console_errors := Suc (console_errors w)\<rparr>)
      else case isValidMessageEvent cfg e of
        Inl err \<Rightarrow> (Some err, w)
      | Inr False \<Rightarrow> (None, w)
      | Inr True \<Rightarrow>
         (let dat = ev_data e in
          if origin_mismatch (channel w) e then (None, w)
          else
           (let w1 = update_source e w;
                ty = js_get dat ''type'';
                payload = js_get dat ''data''
            in if isHandshakeMessage h ty \<and> truthy payload then
                 (if strict_eq ty (JStr ''handshake/syn'') then
                    (let w2 = w1\<lparr>channel := (channel w1)\<lparr>ch_origin := Some (ev_origin e),
                                                          ch_id := js_get payload ''id''\<rparr>\<rparr>
                     in case setConnectionStatus h cfg Connecting w2 of
                          (Some err, w3) \<Rightarrow> (Some err, w3)
                        | (None, w3) \<Rightarrow>
                            send h cfg ''handshake/syn-ack''
                              (JObj [(''id'', ch_id (channel w3))]) w3)
                  else if strict_eq ty (JStr ''handshake/ack'') \<and>
                          strict_eq (js_get payload ''id'') (ch_id (channel w1))
                  then setConnectionStatus h cfg Connected w1
                  else (None, w1))
               else if strict_eq (js_get dat ''connectionId'') (ch_id (channel w1)) \<and>
                       Some (ev_origin e) = ch_origin (channel w1) then
                 (if strict_eq ty (JStr ''channel/disconnect'')
                  then setConnectionStatus h cfg Disconnected w1
                  else
                    (let w2 = (if cfg_onEvent cfg
                               then w1\<lparr>onEvent_calls := onEvent_calls w1 @ [(ty, payload)]\<rparr>
                               else w1)
                     in send h cfg ''channel/response''
                          (JObj [(''responseTo'', js_get dat ''id'')]) w2))
               else (None, w1))))"

subsection \<open>Teardown, start-up and the public interface\<close>

definition disconnect :: "helpers \<Rightarrow> ChannelsNodeOptions \<Rightarrow> node \<Rightarrow> error option \<times> node" where
  "disconnect h cfg w =
     (if ch_status (channel w) \<in> set [Disconnected] then (None, w)
      else setConnectionStatus h cfg Disconnected w)"

definition destroy :: "helpers \<Rightarrow> ChannelsNodeOptions \<Rightarrow> node \<Rightarrow> error option \<times> node" where
  "destroy h cfg w =
     (case disconnect h cfg w of
        (Some err, w1) \<Rightarrow> (Some err, w1)
      | (None, w1) \<Rightarrow> (None, w1\<lparr>listening := False\<rparr>))"

definition initialise :: "helpers \<Rightarrow> ChannelsNodeOptions \<Rightarrow> node \<Rightarrow> error option \<times> node" where
  "initialise h cfg w = setConnectionStatus h cfg Connecting (w\<lparr>listening := True\<rparr>)"

definition sendPublic :: "helpers \<Rightarrow> ChannelsNodeOptions \<Rightarrow> string \<Rightarrow> jsval \<Rightarrow> node \<Rightarrow> error option \<times> node" where
  "sendPublic h cfg ty dat w = send h cfg ty dat w"

text \<open>
  \<^verbatim>\<open>createChannelsNode\<close>: the fresh \<^verbatim>\<open>channel\<close> object, then
  \<^verbatim>\<open>initialise()\<close>. (\<^verbatim>\<open>inFrame\<close> is a property of the window and plays no
  part in the protocol.)
\<close>

definition new_node :: node where
  "new_node =
     \<lparr>channel = \<lparr>ch_buffer = [], ch_id = JNull, ch_origin = None, ch_source = None,
                 ch_status = Connecting\<rparr>,
      posted = [], onEvent_calls = [], onStatusUpdate_calls = [],
      console_errors = 0, uuid_calls = 0, listening = False\<rparr>"

definition createChannelsNode :: "helpers \<Rightarrow> ChannelsNodeOptions \<Rightarrow> error option \<times> node" where
  "createChannelsNode h cfg = initialise h cfg new_node"

subsection \<open>Calls made on a node\<close>

text \<open>
  The node is driven by its owner, who calls \<^verbatim>\<open>send\<close> and \<^verbatim>\<open>destroy\<close> of the
  returned object, and by the window, which calls \<^verbatim>\<open>handleEvents\<close> for every
  message event while the listener is registered. JavaScript runs these calls
  one after the other. An exception ends the call that raised it and is reported
  to its caller; the node lives on in the state the call left behind.
\<close>

datatype call = Send string jsval | Receive MessageEvent | Destroy

fun step :: "helpers \<Rightarrow> ChannelsNodeOptions \<Rightarrow> call \<Rightarrow> node \<Rightarrow> error option \<times> node" where
  "step h cfg (Send ty dat) w = sendPublic h cfg ty dat w"
| "step h cfg (Receive e) w = (if listening w then handleEvents h cfg e w else (None, w))"
| "step h cfg Destroy w = destroy h cfg w"

fun run :: "helpers \<Rightarrow> ChannelsNodeOptions \<Rightarrow> call list \<Rightarrow> node \<Rightarrow> node" where
  "run h cfg [] w = w"
| "run h cfg (c # cs) w = run h cfg cs (snd (step h cfg c w))"

text \<open>What the peer sees of a posted envelope: its type and its payload.\<close>

fun payload_of :: "nat \<times> ProtocolMsg \<times> string \<Rightarrow> string \<times> jsval" where
  "payload_of (s, m, og) = (msg_type m, msg_data m)"

text \<open>
  An instance of the parameters, used where a statement is evaluated on
  concrete events. Its handshake types are the three that \<^verbatim>\<open>node.ts\<close> names,
  its internal types the two that \<^verbatim>\<open>node.ts\<close> names; no event has the payload
  shape of the older protocol version, and the transport accepts every
  envelope. The general theorems hold for every instance.
\<close>

definition reference_helpers :: helpers where
  "reference_helpers =
     \<lparr>isHandshakeMessage =
        (\<lambda>t. t \<in> set [JStr ''handshake/syn'', JStr ''handshake/syn-ack'', JStr ''handshake/ack'']),
      isInternalMessage =
        (\<lambda>t. t \<in> set [JStr ''channel/disconnect'', JStr ''channel/response'']),
      isLegacyHandshakeMessage = (\<lambda>e. False),
      postMessage_throws = (\<lambda>s m og. False)\<rparr>"

text \<open>
  The node of the overlay side, \<^verbatim>\<open>'overlays'\<close> connected to
  \<^verbatim>\<open>'composer'\<close>, with both callbacks given.
\<close>

definition overlays_config :: ChannelsNodeOptions where
  "overlays_config =
     \<lparr>cfg_id = ''overlays'', cfg_connectTo = ''composer'',
      cfg_onEvent = True, cfg_onStatusUpdate = True\<rparr>"

text \<open>
  An envelope from the composer to the overlays node, as \<^verbatim>\<open>send\<close> on the
  other side builds it, and the message event that delivers it.
\<close>

definition envelope :: "jsval \<Rightarrow> string \<Rightarrow> jsval \<Rightarrow> jsval" where
  "envelope cid ty dat =
     JObj [(''connectionId'', cid), (''data'', dat), (''domain'', JStr ''sanity/channels''),
           (''from'', JStr ''composer''), (''id'', JStr ''m1''), (''to'', JStr ''overlays''),
           (''type'', JStr ty)]"

definition event_from :: "string \<Rightarrow> nat \<Rightarrow> jsval \<Rightarrow> MessageEvent" where
  "event_from og s dat = \<lparr>ev_data = dat, ev_origin = og, ev_source = Some s\<rparr>"

definition syn_event :: "string \<Rightarrow> nat \<Rightarrow> string \<Rightarrow> MessageEvent" where
  "syn_event og s sid =
     event_from og s (envelope JNull ''handshake/syn'' (JObj [(''id'', JStr sid)]))"

definition ack_event :: "string \<Rightarrow> nat \<Rightarrow> string \<Rightarrow> MessageEvent" where
  "ack_event og s sid =
     event_from og s (envelope (JStr sid) ''handshake/ack'' (JObj [(''id'', JStr sid)]))"

definition started :: node where
  "started = snd (createChannelsNode reference_helpers overlays_config)"

text \<open>
  Three states of that node: \<^verbatim>\<open>started\<close> after creation; \<^verbatim>\<open>paired\<close> after a
  handshake-open with session id \<^verbatim>\<open>'abc'\<close> from the studio's window (sink 1);
  \<^verbatim>\<open>connected_node\<close> after the handshake-confirm that follows.
\<close>

definition studio :: string where
  "studio = ''https://studio.example''"

definition paired :: node where
  "paired = run reference_helpers overlays_config [Receive (syn_event studio 1 ''abc'')] started"

definition connected_node :: node where
  "connected_node =
     run reference_helpers overlays_config [Receive (ack_event studio 1 ''abc'')] paired"

text \<open>
  A fourth state: the paired node with two messages waiting in the buffer.
\<close>

definition queued :: node where
  "queued =
     run reference_helpers overlays_config [Send ''p'' (JNum 1), Send ''q'' (JNum 2)] paired"

subsection \<open>Application messages, in the order of submission\<close>






subsection \<open>A status callback that sends\<close>


definition setConnectionStatus_cb ::
  "helpers \<Rightarrow> ChannelsNodeOptions \<Rightarrow> (ChannelStatus \<Rightarrow> (string \<times> jsval) list) \<Rightarrow>
   ChannelStatus \<Rightarrow> node \<Rightarrow> error option \<times> node" where
  "setConnectionStatus_cb h cfg cb next w =
     (let w1 = w\<lparr>channel := (channel w)\<lparr>ch_status := next\<rparr>\<rparr>
      in if cfg_onStatusUpdate cfg then
           (case send_each h cfg (cb next)
                   (w1\<lparr>onStatusUpdate_calls := onStatusUpdate_calls w1 @ [next]\<rparr>) of
              (Some err, w2) \<Rightarrow> (Some err, w2)
            | (None, w2) \<Rightarrow> if next = Connected then flush h cfg w2 else (None, w2))
         else if next = Connected then flush h cfg w1 else (None, w1))"

section \<open>Auxiliary facts\<close>

subsection \<open>What send, flush and setConnectionStatus leave alone\<close>

lemma strict_eq_JStr: "strict_eq v (JStr s) \<longleftrightarrow> v = JStr s"
  by (cases v) auto

lemma send_frame:
  "onEvent_calls (snd (send h cfg ty dat w)) = onEvent_calls w"
  "onStatusUpdate_calls (snd (send h cfg ty dat w)) = onStatusUpdate_calls w"
  "console_errors (snd (send h cfg ty dat w)) = console_errors w"
  "listening (snd (send h cfg ty dat w)) = listening w"
  "ch_id (channel (snd (send h cfg ty dat w))) = ch_id (channel w)"
  "ch_origin (channel (snd (send h cfg ty dat w))) = ch_origin (channel w)"
  "ch_source (channel (snd (send h cfg ty dat w))) = ch_source (channel w)"
  "ch_status (channel (snd (send h cfg ty dat w))) = ch_status (channel w)"
  by (simp_all add: send_def Let_def)

lemma send_each_frame:
  "onEvent_calls (snd (send_each h cfg xs w)) = onEvent_calls w \<and>
   onStatusUpdate_calls (snd (send_each h cfg xs w)) = onStatusUpdate_calls w \<and>
   console_errors (snd (send_each h cfg xs w)) = console_errors w \<and>
   listening (snd (send_each h cfg xs w)) = listening w \<and>
   ch_id (channel (snd (send_each h cfg xs w))) = ch_id (channel w) \<and>
   ch_origin (channel (snd (send_each h cfg xs w))) = ch_origin (channel w) \<and>
   ch_source (channel (snd (send_each h cfg xs w))) = ch_source (channel w) \<and>
   ch_status (channel (snd (send_each h cfg xs w))) = ch_status (channel w)"
proof (induction xs arbitrary: w)
  case Nil
  show ?case by simp
next
  case (Cons x xs)
  obtain ty dat where x: "x = (ty, dat)" by (cases x)
  obtain r w1 where s: "send h cfg ty dat w = (r, w1)" by (cases "send h cfg ty dat w")
  have fr: "onEvent_calls w1 = onEvent_calls w" "onStatusUpdate_calls w1 = onStatusUpdate_calls w"
    "console_errors w1 = console_errors w" "listening w1 = listening w"
    "ch_id (channel w1) = ch_id (channel w)" "ch_origin (channel w1) = ch_origin (channel w)"
    "ch_source (channel w1) = ch_source (channel w)" "ch_status (channel w1) = ch_status (channel w)"
    using send_frame[of h cfg ty dat w] s by simp_all
  show ?case
  proof (cases r)
    case None
    then show ?thesis using Cons.IH[of w1] x s fr by simp
  next
    case (Some err)
    then show ?thesis using x s fr by simp
  qed
qed

lemma flush_frame:
  "onEvent_calls (snd (flush h cfg w)) = onEvent_calls w \<and>
   onStatusUpdate_calls (snd (flush h cfg w)) = onStatusUpdate_calls w \<and>
   console_errors (snd (flush h cfg w)) = console_errors w \<and>
   listening (snd (flush h cfg w)) = listening w \<and>
   ch_id (channel (snd (flush h cfg w))) = ch_id (channel w) \<and>
   ch_origin (channel (snd (flush h cfg w))) = ch_origin (channel w) \<and>
   ch_source (channel (snd (flush h cfg w))) = ch_source (channel w) \<and>
   ch_status (channel (snd (flush h cfg w))) = ch_status (channel w)"
  using send_each_frame[of h cfg "ch_buffer (channel w)" "w\<lparr>channel := (channel w)\<lparr>ch_buffer := []\<rparr>\<rparr>"]
  by (simp add: flush_def Let_def)

lemma setConnectionStatus_onEvent:
  "onEvent_calls (snd (setConnectionStatus h cfg next w)) = onEvent_calls w"
  using flush_frame[of h cfg] by (simp add: setConnectionStatus_def Let_def)

lemma setConnectionStatus_status:
  "ch_status (channel (snd (setConnectionStatus h cfg next w))) = next"
  using flush_frame[of h cfg] by (simp add: setConnectionStatus_def Let_def)

lemma setConnectionStatus_not_connected:
  "next \<noteq> Connected \<Longrightarrow>
   setConnectionStatus h cfg next w =
     (None, w\<lparr>channel := (channel w)\<lparr>ch_status := next\<rparr>,
              onStatusUpdate_calls := (if cfg_onStatusUpdate cfg
                                       then onStatusUpdate_calls w @ [next]
                                       else onStatusUpdate_calls w)\<rparr>)"
  by (simp add: setConnectionStatus_def Let_def)

lemma send_onEventD:
  "send h cfg ty dat w = (r, w') \<Longrightarrow> onEvent_calls w' = onEvent_calls w"
  using send_frame(1)[of h cfg ty dat w] by simp

lemma setConnectionStatus_onEventD:
  "setConnectionStatus h cfg next w = (r, w') \<Longrightarrow> onEvent_calls w' = onEvent_calls w"
  using setConnectionStatus_onEvent[of h cfg "next" w] by simp

lemma send_sourceD:
  "send h cfg ty dat w = (r, w') \<Longrightarrow> ch_source (channel w') = ch_source (channel w)"
  using send_frame(7)[of h cfg ty dat w] by simp

lemma setConnectionStatus_sourceD:
  "setConnectionStatus h cfg next w = (r, w') \<Longrightarrow> ch_source (channel w') = ch_source (channel w)"
proof -
  assume a: "setConnectionStatus h cfg next w = (r, w')"
  have "ch_source (channel (snd (setConnectionStatus h cfg next w))) = ch_source (channel w)"
    using flush_frame[of h cfg] by (simp add: setConnectionStatus_def Let_def)
  then show ?thesis using a by simp
qed

subsection \<open>The two branches of send\<close>


lemma send_transmits:
  assumes "isHandshakeMessage h (JStr ty) \<or> isInternalMessage h (JStr ty) \<or>
           (ch_status (channel w) \<noteq> Connecting \<and> ch_status (channel w) \<noteq> Reconnecting)"
      and "truthy (ch_id (channel w))" and "ch_origin (channel w) = Some og" and "og \<noteq> []"
      and "ch_source (channel w) = Some s"
      and "\<not> postMessage_throws h s
             \<lparr>msg_connectionId = ch_id (channel w), msg_data = dat,
              msg_domain = ''sanity/channels'', msg_from = cfg_id cfg,
              msg_id = uuid_calls w, msg_to = cfg_connectTo cfg, msg_type = ty\<rparr> og"
  shows "send h cfg ty dat w =
           (None, w\<lparr>uuid_calls := Suc (uuid_calls w),
                    posted := posted w @
                      [(s, \<lparr>msg_connectionId = ch_id (channel w), msg_data = dat,
                            msg_domain = ''sanity/channels'', msg_from = cfg_id cfg,
                            msg_id = uuid_calls w, msg_to = cfg_connectTo cfg, msg_type = ty\<rparr>,
                        og)]\<rparr>)"
  using assms by (auto simp add: send_def Let_def can_transmit_def)





subsection \<open>The branches of handleEvents\<close>

lemma isValid_total:
  "\<not> nullish (ev_data e) \<Longrightarrow>
   isValidMessageEvent cfg e =
     Inr (strict_eq (js_get (ev_data e) ''domain'') (JStr ''sanity/channels'') \<and>
          strict_eq (js_get (ev_data e) ''to'') (JStr (cfg_id cfg)) \<and>
          strict_eq (js_get (ev_data e) ''from'') (JStr (cfg_connectTo cfg)) \<and>
          \<not> strict_eq (js_get (ev_data e) ''type'') (JStr ''channel/response''))"
  by (simp add: isValidMessageEvent_def get_prop_def Let_def)

text \<open>
  An event whose data is an object or a primitive, and which is not an envelope
  of this protocol addressed to this node by its peer, is dropped without an
  exception.
\<close>

lemma noise_dropped:
  assumes "\<not> nullish (ev_data e)"
      and "\<not> (strict_eq (js_get (ev_data e) ''domain'') (JStr ''sanity/channels'') \<and>
          strict_eq (js_get (ev_data e) ''to'') (JStr (cfg_id cfg)) \<and>
          strict_eq (js_get (ev_data e) ''from'') (JStr (cfg_connectTo cfg)))"
  shows "isValidMessageEvent cfg e = Inr False \<and>
         handleEvents h cfg e w =
           (None, if isLegacyHandshakeMessage h e
                  then w\<lparr>console_errors := Suc (console_errors w)\<rparr> else w)"
proof -
  have v: "isValidMessageEvent cfg e = Inr False"
    using assms(2) by (auto simp add: isValid_total[OF assms(1)])
  show ?thesis using v by (simp add: handleEvents_def)
qed

lemma handle_syn:
  assumes nl: "\<not> isLegacyHandshakeMessage h e"
      and valid: "isValidMessageEvent cfg e = Inr True"
      and og: "\<not> origin_mismatch (channel w) e"
      and hs: "isHandshakeMessage h (JStr ''handshake/syn'')"
      and ty: "js_get (ev_data e) ''type'' = JStr ''handshake/syn''"
      and pl: "truthy (js_get (ev_data e) ''data'')"
  shows "handleEvents h cfg e w =
           send h cfg ''handshake/syn-ack''
             (JObj [(''id'', js_get (js_get (ev_data e) ''data'') ''id'')])
             ((update_source e w)\<lparr>channel := (channel (update_source e w))
                   \<lparr>ch_origin := Some (ev_origin e),
                    ch_id := js_get (js_get (ev_data e) ''data'') ''id'',
                    ch_status := Connecting\<rparr>,
                onStatusUpdate_calls :=
                  (if cfg_onStatusUpdate cfg then onStatusUpdate_calls w @ [Connecting]
                   else onStatusUpdate_calls w)\<rparr>)"
proof -
  have us: "onStatusUpdate_calls (update_source e w) = onStatusUpdate_calls w"
    by (simp add: update_source_def)
  show ?thesis
    using assms us
    by (simp add: handleEvents_def Let_def setConnectionStatus_not_connected)
qed

lemma handle_ack:
  assumes nl: "\<not> isLegacyHandshakeMessage h e"
      and valid: "isValidMessageEvent cfg e = Inr True"
      and og: "\<not> origin_mismatch (channel w) e"
      and hs: "isHandshakeMessage h (JStr ''handshake/ack'')"
      and ty: "js_get (ev_data e) ''type'' = JStr ''handshake/ack''"
      and pl: "truthy (js_get (ev_data e) ''data'')"
      and sid: "strict_eq (js_get (js_get (ev_data e) ''data'') ''id'') (ch_id (channel w))"
  shows "handleEvents h cfg e w = setConnectionStatus h cfg Connected (update_source e w)"
  using assms
  by (auto simp add: handleEvents_def Let_def update_source_def)

lemma handle_app:
  assumes nl: "\<not> isLegacyHandshakeMessage h e"
      and valid: "isValidMessageEvent cfg e = Inr True"
      and og: "Some (ev_origin e) = ch_origin (channel w)"
      and sid: "strict_eq (js_get (ev_data e) ''connectionId'') (ch_id (channel w))"
      and app: "\<not> (isHandshakeMessage h (js_get (ev_data e) ''type'') \<and> truthy (js_get (ev_data e) ''data''))"
      and nd: "js_get (ev_data e) ''type'' \<noteq> JStr ''channel/disconnect''"
  shows "handleEvents h cfg e w =
           send h cfg ''channel/response'' (JObj [(''responseTo'', js_get (ev_data e) ''id'')])
             (if cfg_onEvent cfg
              then (update_source e w)\<lparr>onEvent_calls :=
                     onEvent_calls w @ [(js_get (ev_data e) ''type'', js_get (ev_data e) ''data'')]\<rparr>
              else update_source e w)"
proof -
  have om: "\<not> origin_mismatch (channel w) e"
    using og[symmetric] by (simp add: origin_mismatch_def)
  have us: "onEvent_calls (update_source e w) = onEvent_calls w"
    "ch_id (channel (update_source e w)) = ch_id (channel w)"
    "ch_origin (channel (update_source e w)) = ch_origin (channel w)"
    by (simp_all add: update_source_def)
  have app': "(isHandshakeMessage h (js_get (ev_data e) ''type'') \<and> truthy (js_get (ev_data e) ''data'')) = False"
    using app by simp
  have acc: "(strict_eq (js_get (ev_data e) ''connectionId'') (ch_id (channel (update_source e w))) \<and>
              Some (ev_origin e) = ch_origin (channel (update_source e w))) = True"
    using sid og us by simp
  show ?thesis
    unfolding handleEvents_def Let_def
    using nl valid om nd us(1)
    by (simp only: app' acc if_True if_False strict_eq_JStr sum.case bool.case simp_thms)
qed

lemma response_invalid:
  assumes "js_get (ev_data e) ''type'' = JStr ''channel/response''"
  shows "isValidMessageEvent cfg e = Inr False"
proof -
  have nn: "\<not> nullish (ev_data e)" using assms by (cases "ev_data e") auto
  show ?thesis using assms by (simp add: isValid_total[OF nn])
qed

lemma handler_untouched:
  assumes "(isHandshakeMessage h (js_get (ev_data e) ''type'') \<and> truthy (js_get (ev_data e) ''data'')) \<or>
           js_get (ev_data e) ''type'' = JStr ''channel/disconnect'' \<or>
           js_get (ev_data e) ''type'' = JStr ''channel/response''"
  shows "onEvent_calls (snd (handleEvents h cfg e w)) = onEvent_calls w"
proof (cases "js_get (ev_data e) ''type'' = JStr ''channel/response''")
  case True
  show ?thesis using response_invalid[OF True, of cfg] by (simp add: handleEvents_def)
next
  case False
  obtain r w' where hw: "handleEvents h cfg e w = (r, w')" by (cases "handleEvents h cfg e w")
  have "onEvent_calls w' = onEvent_calls w"
    using hw assms False
    by (auto simp: handleEvents_def Let_def update_source_def strict_eq_JStr
        split: sum.splits bool.splits prod.splits option.splits if_splits
        dest!: send_onEventD setConnectionStatus_onEventD)
  then show ?thesis using hw by simp
qed

subsection \<open>The three states, evaluated\<close>

lemmas eval_defs = started_def createChannelsNode_def initialise_def new_node_def
  setConnectionStatus_def flush_def send_def can_transmit_def handleEvents_def
  isValidMessageEvent_def get_prop_def origin_mismatch_def update_source_def
  disconnect_def destroy_def sendPublic_def reference_helpers_def overlays_config_def
  envelope_def event_from_def syn_event_def ack_event_def studio_def Let_def

lemma started_eq:
  "started =
     \<lparr>channel = \<lparr>ch_buffer = [], ch_id = JNull, ch_origin = None, ch_source = None,
                 ch_status = Connecting\<rparr>,
      posted = [], onEvent_calls = [], onStatusUpdate_calls = [Connecting],
      console_errors = 0, uuid_calls = 0, listening = True\<rparr>"
  by (simp add: eval_defs)

lemma paired_eq:
  "paired =
     \<lparr>channel = \<lparr>ch_buffer = [], ch_id = JStr ''abc'',
                 ch_origin = Some ''https://studio.example'',
                 ch_source = Some 1, ch_status = Connecting\<rparr>,
      posted = [(1, \<lparr>msg_connectionId = JStr ''abc'', msg_data = JObj [(''id'', JStr ''abc'')],
                     msg_domain = ''sanity/channels'', msg_from = ''overlays'',
                     msg_id = 0, msg_to = ''composer'', msg_type = ''handshake/syn-ack''\<rparr>,
                 ''https://studio.example'')],
      onEvent_calls = [], onStatusUpdate_calls = [Connecting, Connecting],
      console_errors = 0, uuid_calls = 1, listening = True\<rparr>"
  unfolding paired_def started_eq by (simp add: eval_defs)

lemma connected_node_eq:
  "connected_node =
     \<lparr>channel = \<lparr>ch_buffer = [], ch_id = JStr ''abc'',
                 ch_origin = Some ''https://studio.example'',
                 ch_source = Some 1, ch_status = Connected\<rparr>,
      posted = [(1, \<lparr>msg_connectionId = JStr ''abc'', msg_data = JObj [(''id'', JStr ''abc'')],
                     msg_domain = ''sanity/channels'', msg_from = ''overlays'',
                     msg_id = 0, msg_to = ''composer'', msg_type = ''handshake/syn-ack''\<rparr>,
                 ''https://studio.example'')],
      onEvent_calls = [], onStatusUpdate_calls = [Connecting, Connecting, Connected],
      console_errors = 0, uuid_calls = 1, listening = True\<rparr>"
  unfolding connected_node_def paired_eq by (simp add: eval_defs)

subsection \<open>The order of application messages\<close>










subsection \<open>The callback variant and the fourth state\<close>

lemma setConnectionStatus_cb_inert:
  "setConnectionStatus_cb h cfg (\<lambda>s. []) next w = setConnectionStatus h cfg next w"
  by (simp add: setConnectionStatus_cb_def setConnectionStatus_def Let_def)

lemma queued_eq:
  "queued =
     \<lparr>channel = \<lparr>ch_buffer = [(''p'', JNum 1), (''q'', JNum 2)], ch_id = JStr ''abc'',
                 ch_origin = Some ''https://studio.example'',
                 ch_source = Some 1, ch_status = Connecting\<rparr>,
      posted = [(1, \<lparr>msg_connectionId = JStr ''abc'', msg_data = JObj [(''id'', JStr ''abc'')],
                     msg_domain = ''sanity/channels'', msg_from = ''overlays'',
                     msg_id = 0, msg_to = ''composer'', msg_type = ''handshake/syn-ack''\<rparr>,
                 ''https://studio.example'')],
      onEvent_calls = [], onStatusUpdate_calls = [Connecting, Connecting],
      console_errors = 0, uuid_calls = 1, listening = True\<rparr>"
  unfolding queued_def paired_eq by (simp add: eval_defs)

subsection \<open>Status and reports after a call\<close>

lemma send_statusD:
  "send h cfg ty dat w = (r, w') \<Longrightarrow> ch_status (channel w') = ch_status (channel w)"
  using send_frame(8)[of h cfg ty dat w] by simp

lemma setConnectionStatus_statusD:
  "setConnectionStatus h cfg next w = (r, w') \<Longrightarrow> ch_status (channel w') = next"
  using setConnectionStatus_status[of h cfg "next" w] by simp

lemma status_after_event:
  "ch_status (channel (snd (handleEvents h cfg e w))) =
     (if \<not> isLegacyHandshakeMessage h e \<and> isValidMessageEvent cfg e = Inr True \<and>
         \<not> origin_mismatch (channel w) e
      then (if isHandshakeMessage h (js_get (ev_data e) ''type'') \<and> truthy (js_get (ev_data e) ''data'')
            then (if js_get (ev_data e) ''type'' = JStr ''handshake/syn'' then Connecting
                  else if js_get (ev_data e) ''type'' = JStr ''handshake/ack'' \<and>
                          strict_eq (js_get (js_get (ev_data e) ''data'') ''id'') (ch_id (channel w))
                       then Connected else ch_status (channel w))
            else if strict_eq (js_get (ev_data e) ''connectionId'') (ch_id (channel w)) \<and>
                    Some (ev_origin e) = ch_origin (channel w) \<and>
                    js_get (ev_data e) ''type'' = JStr ''channel/disconnect''
                 then Disconnected else ch_status (channel w))
      else ch_status (channel w))"
proof -
  obtain r w' where hw: "handleEvents h cfg e w = (r, w')" by (cases "handleEvents h cfg e w")
  have "ch_status (channel w') =
     (if \<not> isLegacyHandshakeMessage h e \<and> isValidMessageEvent cfg e = Inr True \<and>
         \<not> origin_mismatch (channel w) e
      then (if isHandshakeMessage h (js_get (ev_data e) ''type'') \<and> truthy (js_get (ev_data e) ''data'')
            then (if js_get (ev_data e) ''type'' = JStr ''handshake/syn'' then Connecting
                  else if js_get (ev_data e) ''type'' = JStr ''handshake/ack'' \<and>
                          strict_eq (js_get (js_get (ev_data e) ''data'') ''id'') (ch_id (channel w))
                       then Connected else ch_status (channel w))
            else if strict_eq (js_get (ev_data e) ''connectionId'') (ch_id (channel w)) \<and>
                    Some (ev_origin e) = ch_origin (channel w) \<and>
                    js_get (ev_data e) ''type'' = JStr ''channel/disconnect''
                 then Disconnected else ch_status (channel w))
      else ch_status (channel w))"
    using hw
    by (auto simp: handleEvents_def Let_def update_source_def strict_eq_JStr
        split: sum.splits bool.splits prod.splits option.splits if_splits
        dest!: send_statusD setConnectionStatus_statusD)
  then show ?thesis using hw by simp
qed

lemma connected_only_by_ack:
  assumes "ch_status (channel (snd (step h cfg c w))) = Connected"
      and "ch_status (channel w) \<noteq> Connected"
  shows "\<exists>e. c = Receive e \<and> listening w \<and>
             \<not> isLegacyHandshakeMessage h e \<and> isValidMessageEvent cfg e = Inr True \<and>
             \<not> origin_mismatch (channel w) e \<and>
             isHandshakeMessage h (JStr ''handshake/ack'') \<and>
             js_get (ev_data e) ''type'' = JStr ''handshake/ack'' \<and>
             truthy (js_get (ev_data e) ''data'') \<and>
             strict_eq (js_get (js_get (ev_data e) ''data'') ''id'') (ch_id (channel w))"
proof (cases c)
  case (Send ty dat)
  then show ?thesis using assms send_frame(8)[of h cfg ty dat w] by (simp add: sendPublic_def)
next
  case (Receive e)
  show ?thesis
  proof (cases "listening w")
    case True
    have "ch_status (channel (snd (handleEvents h cfg e w))) = Connected"
      using assms(1) Receive True by simp
    then show ?thesis
      using assms(2) Receive True unfolding status_after_event
      by (auto split: if_splits)
  next
    case False
    then show ?thesis using assms Receive by simp
  qed
next
  case Destroy
  have "ch_status (channel (snd (destroy h cfg w))) \<noteq> Connected"
    using assms(2)
    by (auto simp: destroy_def disconnect_def setConnectionStatus_not_connected)
  then show ?thesis using assms(1) Destroy by simp
qed

lemma send_reportsD:
  "send h cfg ty dat w = (r, w') \<Longrightarrow> onStatusUpdate_calls w' = onStatusUpdate_calls w"
  using send_frame(2)[of h cfg ty dat w] by simp

lemma setConnectionStatus_reports:
  "onStatusUpdate_calls (snd (setConnectionStatus h cfg next w)) =
     onStatusUpdate_calls w @ (if cfg_onStatusUpdate cfg then [next] else [])"
  using flush_frame[of h cfg] by (simp add: setConnectionStatus_def Let_def)

lemma setConnectionStatus_reportsD:
  "setConnectionStatus h cfg next w = (r, w') \<Longrightarrow>
   onStatusUpdate_calls w' = onStatusUpdate_calls w @ (if cfg_onStatusUpdate cfg then [next] else [])"
  using setConnectionStatus_reports[of h cfg "next" w] by simp

lemma reports_after_event:
  "onStatusUpdate_calls (snd (handleEvents h cfg e w)) =
     onStatusUpdate_calls w @
     (if cfg_onStatusUpdate cfg \<and>
         \<not> isLegacyHandshakeMessage h e \<and> isValidMessageEvent cfg e = Inr True \<and>
         \<not> origin_mismatch (channel w) e
      then (if isHandshakeMessage h (js_get (ev_data e) ''type'') \<and> truthy (js_get (ev_data e) ''data'')
            then (if js_get (ev_data e) ''type'' = JStr ''handshake/syn'' then [Connecting]
                  else if js_get (ev_data e) ''type'' = JStr ''handshake/ack'' \<and>
                          strict_eq (js_get (js_get (ev_data e) ''data'') ''id'') (ch_id (channel w))
                       then [Connected] else [])
            else if strict_eq (js_get (ev_data e) ''connectionId'') (ch_id (channel w)) \<and>
                    Some (ev_origin e) = ch_origin (channel w) \<and>
                    js_get (ev_data e) ''type'' = JStr ''channel/disconnect''
                 then [Disconnected] else [])
      else [])"
proof -
  obtain r w' where hw: "handleEvents h cfg e w = (r, w')" by (cases "handleEvents h cfg e w")
  have "onStatusUpdate_calls w' =
     onStatusUpdate_calls w @
     (if cfg_onStatusUpdate cfg \<and>
         \<not> isLegacyHandshakeMessage h e \<and> isValidMessageEvent cfg e = Inr True \<and>
         \<not> origin_mismatch (channel w) e
      then (if isHandshakeMessage h (js_get (ev_data e) ''type'') \<and> truthy (js_get (ev_data e) ''data'')
            then (if js_get (ev_data e) ''type'' = JStr ''handshake/syn'' then [Connecting]
                  else if js_get (ev_data e) ''type'' = JStr ''handshake/ack'' \<and>
                          strict_eq (js_get (js_get (ev_data e) ''data'') ''id'') (ch_id (channel w))
                       then [Connected] else [])
            else if strict_eq (js_get (ev_data e) ''connectionId'') (ch_id (channel w)) \<and>
                    Some (ev_origin e) = ch_origin (channel w) \<and>
                    js_get (ev_data e) ''type'' = JStr ''channel/disconnect''
                 then [Disconnected] else [])
      else [])"
    using hw
    by (auto simp: handleEvents_def Let_def update_source_def strict_eq_JStr
        split: sum.splits bool.splits prod.splits option.splits if_splits
        dest!: send_reportsD setConnectionStatus_reportsD)
  then show ?thesis using hw by simp
qed

lemma reported_connected_only_by_ack:
  assumes "onStatusUpdate_calls (snd (step h cfg c w)) = onStatusUpdate_calls w @ rs"
      and "Connected \<in> set rs"
  shows "\<exists>e. c = Receive e \<and> listening w \<and>
             \<not> isLegacyHandshakeMessage h e \<and> isValidMessageEvent cfg e = Inr True \<and>
             \<not> origin_mismatch (channel w) e \<and>
             isHandshakeMessage h (JStr ''handshake/ack'') \<and>
             js_get (ev_data e) ''type'' = JStr ''handshake/ack'' \<and>
             truthy (js_get (ev_data e) ''data'') \<and>
             strict_eq (js_get (js_get (ev_data e) ''data'') ''id'') (ch_id (channel w))"
proof (cases c)
  case (Send ty dat)
  then show ?thesis using assms send_frame(2)[of h cfg ty dat w] by (simp add: sendPublic_def)
next
  case (Receive e)
  show ?thesis
  proof (cases "listening w")
    case True
    have "onStatusUpdate_calls (snd (handleEvents h cfg e w)) = onStatusUpdate_calls w @ rs"
      using assms(1) Receive True by simp
    then show ?thesis
      using assms(2) Receive True unfolding reports_after_event
      by (auto split: if_splits)
  next
    case False
    then show ?thesis using assms Receive by simp
  qed
next
  case Destroy
  have "onStatusUpdate_calls (snd (destroy h cfg w)) = onStatusUpdate_calls w \<or>
        onStatusUpdate_calls (snd (destroy h cfg w)) = onStatusUpdate_calls w @ [Disconnected]"
    by (auto simp: destroy_def disconnect_def setConnectionStatus_not_connected)
  then show ?thesis using assms Destroy by auto
qed

lemma mismatch_plain:
  assumes "\<not> strict_eq (js_get (ev_data e) ''connectionId'') (ch_id (channel w))"
      and "\<not> (isHandshakeMessage h (js_get (ev_data e) ''type'') \<and> truthy (js_get (ev_data e) ''data''))"
  shows "handleEvents h cfg e w =
           (if isLegacyHandshakeMessage h e
            then (None, w\<lparr>console_errors := Suc (console_errors w)\<rparr>)
            else case isValidMessageEvent cfg e of
                   Inl err \<Rightarrow> (Some err, w)
                 | Inr v \<Rightarrow> (None, if v \<and> \<not> origin_mismatch (channel w) e
                                    then update_source e w else w))"
proof -
  have us: "ch_id (channel (update_source e w)) = ch_id (channel w)"
    by (simp add: update_source_def)
  have hs: "(isHandshakeMessage h (js_get (ev_data e) ''type'') \<and> truthy (js_get (ev_data e) ''data'')) = False"
    using assms(2) by simp
  have ne: "strict_eq (js_get (ev_data e) ''connectionId'') (ch_id (channel w)) = False"
    using assms(1) by simp
  show ?thesis
    unfolding handleEvents_def Let_def us hs ne
    by (simp split: sum.splits bool.splits)
qed

section \<open>The properties\<close>

subsection \<open>C1: order of delivery across the connect transition\<close>





subsection \<open>C2: session pinning\<close>

text \<open>
  \<^verbatim>\<open>config.onEvent\<close> is only called for an envelope whose session id
  (\<^verbatim>\<open>connectionId\<close>) is strictly equal to \<^verbatim>\<open>channel.id\<close>.
\<close>

lemma handler_needs_session:
  assumes "\<not> strict_eq (js_get (ev_data e) ''connectionId'') (ch_id (channel w))"
  shows "onEvent_calls (snd (handleEvents h cfg e w)) = onEvent_calls w"
proof -
  obtain r w' where hw: "handleEvents h cfg e w = (r, w')" by (cases "handleEvents h cfg e w")
  have "onEvent_calls w' = onEvent_calls w"
    using hw assms
    by (auto simp: handleEvents_def Let_def update_source_def
        split: sum.splits bool.splits prod.splits option.splits if_splits
        dest!: send_onEventD setConnectionStatus_onEventD)
  then show ?thesis using hw by simp
qed

text \<open>
  C2, as amended. An inbound event whose envelope carries a session id that is
  not strictly equal to \<^verbatim>\<open>channel.id\<close> never makes \<^verbatim>\<open>handleEvents\<close> call
  \<^verbatim>\<open>config.onEvent\<close>, whatever its type. Unless it is a handshake-type envelope
  with a truthy payload, all it can do is replace the peer sink, when it is a
  valid envelope that passes the origin check: status, session id, origin and
  buffer stay as they are, no callback is called, nothing is posted (a legacy
  handshake leaves a \<^verbatim>\<open>console.error\<close> line, \<^verbatim>\<open>null\<close> data a \<^verbatim>\<open>TypeError\<close>).
  A handshake-type envelope with a payload is not matched on the envelope's
  session id at all: a \<^verbatim>\<open>handshake/ack\<close> whose payload id is strictly equal to
  \<^verbatim>\<open>channel.id\<close> enters \<^verbatim>\<open>connected\<close>, and flushes the buffer to the sink the
  event brought, whatever session id its envelope carries.
\<close>

theorem session_mismatch:
  "(\<not> strict_eq (js_get (ev_data e) ''connectionId'') (ch_id (channel w)) \<longrightarrow>
    onEvent_calls (snd (handleEvents h cfg e w)) = onEvent_calls w) \<and>
   (\<not> strict_eq (js_get (ev_data e) ''connectionId'') (ch_id (channel w)) \<and>
    \<not> (isHandshakeMessage h (js_get (ev_data e) ''type'') \<and> truthy (js_get (ev_data e) ''data'')) \<longrightarrow>
    handleEvents h cfg e w =
      (if isLegacyHandshakeMessage h e
       then (None, w\<lparr>console_errors := Suc (console_errors w)\<rparr>)
       else case isValidMessageEvent cfg e of
              Inl err \<Rightarrow> (Some err, w)
            | Inr v \<Rightarrow> (None, if v \<and> \<not> origin_mismatch (channel w) e
                               then update_source e w else w))) \<and>
   (\<not> isLegacyHandshakeMessage h e \<and> isValidMessageEvent cfg e = Inr True \<and>
    \<not> origin_mismatch (channel w) e \<and>
    isHandshakeMessage h (JStr ''handshake/ack'') \<and>
    js_get (ev_data e) ''type'' = JStr ''handshake/ack'' \<and>
    truthy (js_get (ev_data e) ''data'') \<and>
    strict_eq (js_get (js_get (ev_data e) ''data'') ''id'') (ch_id (channel w)) \<longrightarrow>
    handleEvents h cfg e w = setConnectionStatus h cfg Connected (update_source e w))"
proof (intro conjI impI, goal_cases)
  case 1
  then show ?case by (rule handler_needs_session)
next
  case 2
  then show ?case by (elim conjE) (rule mismatch_plain; assumption)
next
  case 3
  then show ?case by (elim conjE) (rule handle_ack; assumption)
qed

text \<open>
  On the paired node, an application envelope of another session that arrives
  from a new window (sink 5): the handler is not called, the sink is replaced,
  nothing else happens. On the node with \<^verbatim>\<open>p\<close> and \<^verbatim>\<open>q\<close> in the buffer, a
  handshake-confirm of another session with the payload id of this one:
  \<^verbatim>\<open>handleEvents\<close> enters \<^verbatim>\<open>connected\<close>.
\<close>

theorem session_mismatch_witness:
  "ch_id (channel paired) = JStr ''abc'' \<and>
   onEvent_calls
     (snd (handleEvents reference_helpers overlays_config
             (event_from studio 5 (envelope (JStr ''other'') ''ping'' (JNum 1))) paired)) =
     onEvent_calls paired \<and>
   handleEvents reference_helpers overlays_config
     (event_from studio 5 (envelope (JStr ''other'') ''ping'' (JNum 1))) paired =
     (None, paired\<lparr>channel := (channel paired)\<lparr>ch_source := Some 5\<rparr>\<rparr>) \<and>
   handleEvents reference_helpers overlays_config
     (event_from studio 5
        (envelope (JStr ''other'') ''handshake/ack'' (JObj [(''id'', JStr ''abc'')]))) queued =
     setConnectionStatus reference_helpers overlays_config Connected
       (queued\<lparr>channel := (channel queued)\<lparr>ch_source := Some 5\<rparr>\<rparr>)"
proof -
  let ?ping = "event_from studio 5 (envelope (JStr ''other'') ''ping'' (JNum 1))"
  let ?ack = "event_from studio 5
                (envelope (JStr ''other'') ''handshake/ack'' (JObj [(''id'', JStr ''abc'')]))"
  have ne: "\<not> strict_eq (js_get (ev_data ?ping) ''connectionId'') (ch_id (channel paired))"
    by (simp add: paired_eq event_from_def envelope_def)
  have plain: "\<not> (isHandshakeMessage reference_helpers (js_get (ev_data ?ping) ''type'') \<and>
                   truthy (js_get (ev_data ?ping) ''data''))"
    by (simp add: event_from_def envelope_def reference_helpers_def)
  have ack_ok: "\<not> isLegacyHandshakeMessage reference_helpers ?ack \<and>
      isValidMessageEvent overlays_config ?ack = Inr True \<and>
      \<not> origin_mismatch (channel queued) ?ack \<and>
      isHandshakeMessage reference_helpers (JStr ''handshake/ack'') \<and>
      js_get (ev_data ?ack) ''type'' = JStr ''handshake/ack'' \<and>
      truthy (js_get (ev_data ?ack) ''data'') \<and>
      strict_eq (js_get (js_get (ev_data ?ack) ''data'') ''id'') (ch_id (channel queued))"
    unfolding queued_eq by (simp add: eval_defs)
  note t1 = session_mismatch[of ?ping paired reference_helpers overlays_config]
  note t2 = session_mismatch[of ?ack queued reference_helpers overlays_config]
  have a: "onEvent_calls (snd (handleEvents reference_helpers overlays_config ?ping paired)) =
             onEvent_calls paired"
    using t1 ne by blast
  have b: "handleEvents reference_helpers overlays_config ?ping paired =
      (if isLegacyHandshakeMessage reference_helpers ?ping
       then (None, paired\<lparr>console_errors := Suc (console_errors paired)\<rparr>)
       else case isValidMessageEvent overlays_config ?ping of
              Inl err \<Rightarrow> (Some err, paired)
            | Inr v \<Rightarrow> (None, if v \<and> \<not> origin_mismatch (channel paired) ?ping
                               then update_source ?ping paired else paired))"
    using t1 ne plain by blast
  have c: "handleEvents reference_helpers overlays_config ?ack queued =
             setConnectionStatus reference_helpers overlays_config Connected
               (update_source ?ack queued)"
    using t2 ack_ok by blast
  have rhs_b: "(if isLegacyHandshakeMessage reference_helpers ?ping
       then (None, paired\<lparr>console_errors := Suc (console_errors paired)\<rparr>)
       else case isValidMessageEvent overlays_config ?ping of
              Inl err \<Rightarrow> (Some err, paired)
            | Inr v \<Rightarrow> (None, if v \<and> \<not> origin_mismatch (channel paired) ?ping
                               then update_source ?ping paired else paired)) =
       (None, paired\<lparr>channel := (channel paired)\<lparr>ch_source := Some 5\<rparr>\<rparr>)"
    unfolding paired_eq by (simp add: eval_defs)
  have rhs_c: "update_source ?ack queued = queued\<lparr>channel := (channel queued)\<lparr>ch_source := Some 5\<rparr>\<rparr>"
    unfolding queued_eq by (simp add: update_source_def event_from_def)
  have i: "ch_id (channel paired) = JStr ''abc''" by (simp add: paired_eq)
  show ?thesis using i a b c unfolding rhs_b rhs_c by simp
qed

text \<open>
  The claim as stated fails: an envelope of another session is not rejected
  when it is a handshake-confirm. On the node with \<^verbatim>\<open>p\<close> and \<^verbatim>\<open>q\<close> in the
  buffer and window 1 as its sink, a \<^verbatim>\<open>handshake/ack\<close> envelope with session id
  \<^verbatim>\<open>'other'\<close> that arrives from window 5 with the payload id \<^verbatim>\<open>'abc'\<close> replaces
  the sink, sets the status to \<^verbatim>\<open>connected\<close> and flushes the buffer to window 5.
\<close>

theorem session_mismatch_counterexample:
  "js_get (ev_data (event_from studio 5
      (envelope (JStr ''other'') ''handshake/ack'' (JObj [(''id'', JStr ''abc'')]))))
      ''connectionId'' = JStr ''other'' \<and>
   ch_id (channel queued) = JStr ''abc'' \<and>
   ch_status (channel queued) = Connecting \<and>
   ch_source (channel queued) = Some 1 \<and>
   ch_status (channel (snd (handleEvents reference_helpers overlays_config
      (event_from studio 5
         (envelope (JStr ''other'') ''handshake/ack'' (JObj [(''id'', JStr ''abc'')])))
      queued))) = Connected \<and>
   ch_source (channel (snd (handleEvents reference_helpers overlays_config
      (event_from studio 5
         (envelope (JStr ''other'') ''handshake/ack'' (JObj [(''id'', JStr ''abc'')])))
      queued))) = Some 5 \<and>
   map fst (posted (snd (handleEvents reference_helpers overlays_config
      (event_from studio 5
         (envelope (JStr ''other'') ''handshake/ack'' (JObj [(''id'', JStr ''abc'')])))
      queued))) = [1, 5, 5] \<and>
   map payload_of (posted (snd (handleEvents reference_helpers overlays_config
      (event_from studio 5
         (envelope (JStr ''other'') ''handshake/ack'' (JObj [(''id'', JStr ''abc'')])))
      queued))) =
     [(''handshake/syn-ack'', JObj [(''id'', JStr ''abc'')]), (''p'', JNum 1), (''q'', JNum 2)]"
  unfolding queued_eq by (simp add: eval_defs)

subsection \<open>C3: origin pinning\<close>

text \<open>
  Once \<^verbatim>\<open>channel.origin\<close> holds a non-empty string, an inbound event from any
  other origin changes nothing in the node: the channel object is as before, the
  handler and the status callback are not called, nothing is posted. This holds
  for every event, also one with the right session id and also a handshake.
  (The only trace is the \<^verbatim>\<open>console.error\<close> line when the event is a legacy
  handshake.)
\<close>

lemma origin_pinning:
  assumes "ch_origin (channel w) = Some og" and "og \<noteq> []" and "ev_origin e \<noteq> og"
  shows "snd (handleEvents h cfg e w) =
           (if isLegacyHandshakeMessage h e
            then w\<lparr>console_errors := Suc (console_errors w)\<rparr> else w)"
  using assms
  by (simp add: handleEvents_def origin_mismatch_def split: sum.splits bool.splits)

lemma origin_pinning_example:
  "snd (handleEvents reference_helpers overlays_config
          (syn_event ''https://evil.example'' 2 ''evil'') paired) = paired"
proof -
  have o: "ch_origin (channel paired) = Some ''https://studio.example''"
    by (simp add: paired_eq)
  have ne: "''https://studio.example'' \<noteq> []" by simp
  have d: "ev_origin (syn_event ''https://evil.example'' 2 ''evil'') \<noteq> ''https://studio.example''"
    by (simp add: syn_event_def event_from_def)
  show ?thesis
    using origin_pinning[OF o ne d, of reference_helpers overlays_config]
    by (simp add: reference_helpers_def)
qed


subsection \<open>C4: buffering in send\<close>

text \<open>
  C4, as amended. A call of \<^verbatim>\<open>send\<close> with a type that is neither a handshake
  type nor an internal type, while the status is \<^verbatim>\<open>connecting\<close> or
  \<^verbatim>\<open>reconnecting\<close>, appends \<^verbatim>\<open>{type, data}\<close> to the buffer and returns: no
  exception, nothing posted, nothing else changed.
\<close>

theorem send_buffers_while_connecting:
  assumes "\<not> isHandshakeMessage h (JStr ty)" and "\<not> isInternalMessage h (JStr ty)"
      and "ch_status (channel w) = Connecting \<or> ch_status (channel w) = Reconnecting"
  shows "send h cfg ty dat w =
           (None, w\<lparr>channel := (channel w)\<lparr>ch_buffer := ch_buffer (channel w) @ [(ty, dat)]\<rparr>\<rparr>)"
  using assms by (auto simp add: send_def Let_def)

theorem send_buffers_while_connecting_witness:
  "send reference_helpers overlays_config ''ping'' (JNum 1) paired =
     (None, paired\<lparr>channel := (channel paired)\<lparr>ch_buffer := [(''ping'', JNum 1)]\<rparr>\<rparr>)"
proof -
  have a: "\<not> isHandshakeMessage reference_helpers (JStr ''ping'')"
    by (simp add: reference_helpers_def)
  have b: "\<not> isInternalMessage reference_helpers (JStr ''ping'')"
    by (simp add: reference_helpers_def)
  have c: "ch_status (channel paired) = Connecting \<or> ch_status (channel paired) = Reconnecting"
    by (simp add: paired_eq)
  show ?thesis
    using send_buffers_while_connecting[OF a b c, of overlays_config "JNum 1"]
    by (simp add: paired_eq)
qed

text \<open>
  The claim as stated fails in status \<^verbatim>\<open>disconnected\<close>, which is not
  \<^verbatim>\<open>connected\<close>: after \<^verbatim>\<open>destroy()\<close> on the paired node, \<^verbatim>\<open>send('ping', 1)\<close>
  is not buffered but posted to the peer.
\<close>

theorem send_buffers_counterexample:
  "ch_status (channel (run reference_helpers overlays_config [Destroy] paired)) = Disconnected \<and>
   ch_buffer (channel (run reference_helpers overlays_config [Destroy, Send ''ping'' (JNum 1)] paired)) = [] \<and>
   map payload_of (posted (run reference_helpers overlays_config [Destroy, Send ''ping'' (JNum 1)] paired)) =
     [(''handshake/syn-ack'', JObj [(''id'', JStr ''abc'')]), (''ping'', JNum 1)]"
  unfolding paired_eq by (simp add: eval_defs)

subsection \<open>C5: disconnect\<close>

text \<open>
  C5, as amended. \<^verbatim>\<open>disconnect()\<close> on a node whose status is not
  \<^verbatim>\<open>disconnected\<close> sets the status to \<^verbatim>\<open>disconnected\<close> and reports it to
  \<^verbatim>\<open>config.onStatusUpdate\<close>; it posts nothing to the peer (the line that would
  send \<^verbatim>\<open>channel/disconnect\<close> is commented out) and changes nothing else.
\<close>

theorem disconnect_is_local:
  assumes "ch_status (channel w) \<noteq> Disconnected"
  shows "disconnect h cfg w =
           (None, w\<lparr>channel := (channel w)\<lparr>ch_status := Disconnected\<rparr>,
                    onStatusUpdate_calls :=
                      (if cfg_onStatusUpdate cfg
                       then onStatusUpdate_calls w @ [Disconnected]
                       else onStatusUpdate_calls w)\<rparr>) \<and>
         posted (snd (disconnect h cfg w)) = posted w"
  using assms by (simp add: disconnect_def setConnectionStatus_not_connected)

theorem disconnect_is_local_witness:
  "ch_status (channel (snd (disconnect reference_helpers overlays_config connected_node))) =
     Disconnected \<and>
   onStatusUpdate_calls (snd (disconnect reference_helpers overlays_config connected_node)) =
     [Connecting, Connecting, Connected, Disconnected] \<and>
   posted (snd (disconnect reference_helpers overlays_config connected_node)) =
     posted connected_node"
proof -
  have a: "ch_status (channel connected_node) \<noteq> Disconnected"
    by (simp add: connected_node_eq)
  show ?thesis
    using disconnect_is_local[OF a, of reference_helpers overlays_config]
    by (simp add: connected_node_eq overlays_config_def)
qed

text \<open>
  The claim as stated fails: on the connected node, which has a session id, an
  origin and a sink, \<^verbatim>\<open>disconnect()\<close> posts nothing.
\<close>

theorem disconnect_counterexample:
  "ch_status (channel connected_node) = Connected \<and>
   can_transmit (channel connected_node) \<and>
   posted (snd (disconnect reference_helpers overlays_config connected_node)) =
     posted connected_node"
  unfolding connected_node_eq by (simp add: eval_defs)

subsection \<open>C6: the responding side of the handshake\<close>

lemma syn_effects:
  assumes a: "\<not> isLegacyHandshakeMessage h e \<and> isValidMessageEvent cfg e = Inr True \<and>
    \<not> origin_mismatch (channel w) e \<and>
    isHandshakeMessage h (JStr ''handshake/syn'') \<and>
    js_get (ev_data e) ''type'' = JStr ''handshake/syn'' \<and>
    truthy (js_get (ev_data e) ''data'')"
  shows "let sid = js_get (js_get (ev_data e) ''data'') ''id'';
         w' = snd (handleEvents h cfg e w)
     in ch_id (channel w') = sid \<and>
        ch_origin (channel w') = Some (ev_origin e) \<and>
        ch_status (channel w') = Connecting \<and>
        onStatusUpdate_calls w' =
          onStatusUpdate_calls w @ (if cfg_onStatusUpdate cfg then [Connecting] else []) \<and>
        (isHandshakeMessage h (JStr ''handshake/syn-ack'') \<and> truthy sid \<and>
         ev_origin e \<noteq> [] \<and> ch_source (channel w') = Some s \<and>
         \<not> postMessage_throws h s
             \<lparr>msg_connectionId = sid, msg_data = JObj [(''id'', sid)],
              msg_domain = ''sanity/channels'', msg_from = cfg_id cfg,
              msg_id = uuid_calls w, msg_to = cfg_connectTo cfg,
              msg_type = ''handshake/syn-ack''\<rparr> (ev_origin e) \<longrightarrow>
         posted w' = posted w @
           [(s, \<lparr>msg_connectionId = sid, msg_data = JObj [(''id'', sid)],
                 msg_domain = ''sanity/channels'', msg_from = cfg_id cfg,
                 msg_id = uuid_calls w, msg_to = cfg_connectTo cfg,
                 msg_type = ''handshake/syn-ack''\<rparr>, ev_origin e)])"
proof -
  let ?sid = "js_get (js_get (ev_data e) ''data'') ''id''"
  let ?w2 = "(update_source e w)\<lparr>channel := (channel (update_source e w))
                   \<lparr>ch_origin := Some (ev_origin e),
                    ch_id := ?sid,
                    ch_status := Connecting\<rparr>,
                onStatusUpdate_calls :=
                  (if cfg_onStatusUpdate cfg then onStatusUpdate_calls w @ [Connecting]
                   else onStatusUpdate_calls w)\<rparr>"
  have us: "posted (update_source e w) = posted w" "uuid_calls (update_source e w) = uuid_calls w"
    by (simp_all add: update_source_def)
  have he: "handleEvents h cfg e w = send h cfg ''handshake/syn-ack'' (JObj [(''id'', ?sid)]) ?w2"
    using a handle_syn[of h e cfg w] by simp
  let ?w' = "snd (handleEvents h cfg e w)"
  have f1: "ch_id (channel ?w') = ?sid" "ch_origin (channel ?w') = Some (ev_origin e)"
    "ch_status (channel ?w') = Connecting" "ch_source (channel ?w') = ch_source (channel ?w2)"
    using he send_frame[of h cfg "''handshake/syn-ack''" "JObj [(''id'', ?sid)]" ?w2] by simp_all
  have f3: "onStatusUpdate_calls ?w' =
              onStatusUpdate_calls w @ (if cfg_onStatusUpdate cfg then [Connecting] else [])"
    using a unfolding reports_after_event by simp
  have f2: "posted ?w' = posted w @
           [(s, \<lparr>msg_connectionId = ?sid, msg_data = JObj [(''id'', ?sid)],
                 msg_domain = ''sanity/channels'', msg_from = cfg_id cfg,
                 msg_id = uuid_calls w, msg_to = cfg_connectTo cfg,
                 msg_type = ''handshake/syn-ack''\<rparr>, ev_origin e)]"
    if b: "isHandshakeMessage h (JStr ''handshake/syn-ack'') \<and> truthy ?sid \<and>
         ev_origin e \<noteq> [] \<and> ch_source (channel ?w') = Some s \<and>
         \<not> postMessage_throws h s
             \<lparr>msg_connectionId = ?sid, msg_data = JObj [(''id'', ?sid)],
              msg_domain = ''sanity/channels'', msg_from = cfg_id cfg,
              msg_id = uuid_calls w, msg_to = cfg_connectTo cfg,
              msg_type = ''handshake/syn-ack''\<rparr> (ev_origin e)"
  proof -
    have src: "ch_source (channel ?w2) = Some s" using b f1(4) by simp
    have "send h cfg ''handshake/syn-ack'' (JObj [(''id'', ?sid)]) ?w2 =
           (None, ?w2\<lparr>uuid_calls := Suc (uuid_calls ?w2),
                    posted := posted ?w2 @
                      [(s, \<lparr>msg_connectionId = ch_id (channel ?w2), msg_data = JObj [(''id'', ?sid)],
                            msg_domain = ''sanity/channels'', msg_from = cfg_id cfg,
                            msg_id = uuid_calls ?w2, msg_to = cfg_connectTo cfg,
                            msg_type = ''handshake/syn-ack''\<rparr>,
                        ev_origin e)]\<rparr>)"
      apply (rule send_transmits)
      using b src us by simp_all
    then show ?thesis using he us by simp
  qed
  show ?thesis unfolding Let_def using f1(1,2,3) f3 f2 by blast
qed

lemma ack_effects:
  assumes a: "\<not> isLegacyHandshakeMessage h e \<and> isValidMessageEvent cfg e = Inr True \<and>
    \<not> origin_mismatch (channel w) e \<and>
    isHandshakeMessage h (JStr ''handshake/ack'') \<and>
    js_get (ev_data e) ''type'' = JStr ''handshake/ack'' \<and>
    truthy (js_get (ev_data e) ''data'') \<and>
    strict_eq (js_get (js_get (ev_data e) ''data'') ''id'') (ch_id (channel w))"
  shows "ch_status (channel (snd (handleEvents h cfg e w))) = Connected \<and>
         onStatusUpdate_calls (snd (handleEvents h cfg e w)) =
           onStatusUpdate_calls w @ (if cfg_onStatusUpdate cfg then [Connected] else [])"
  using a unfolding status_after_event reports_after_event by simp

text \<open>
  C6, as amended. A valid \<^verbatim>\<open>handshake/syn\<close> envelope with a truthy payload
  that passes the origin check makes the node adopt the session id the peer put
  into the payload (\<^verbatim>\<open>data.id\<close>; the node mints none), pin the sender's
  origin, set its status to \<^verbatim>\<open>connecting\<close> and report \<^verbatim>\<open>connecting\<close> to
  \<^verbatim>\<open>config.onStatusUpdate\<close>; when that id, the origin and the sink are truthy
  and the transport accepts the envelope, it replies with a
  \<^verbatim>\<open>handshake/syn-ack\<close> carrying that id. A valid \<^verbatim>\<open>handshake/ack\<close> envelope
  with a payload whose id is strictly equal to the session id, passing the
  origin check, sets the status to \<^verbatim>\<open>connected\<close> and reports \<^verbatim>\<open>connected\<close>.
  Until then the node is not connected: no call on the node (a send, another
  inbound event, \<^verbatim>\<open>destroy\<close>) takes the status from another value to
  \<^verbatim>\<open>connected\<close>, and none reports \<^verbatim>\<open>connected\<close> to the callback, except the
  receipt of such a handshake-confirm.
\<close>

theorem responder_handshake:
  "(\<not> isLegacyHandshakeMessage h e \<and> isValidMessageEvent cfg e = Inr True \<and>
    \<not> origin_mismatch (channel w) e \<and>
    isHandshakeMessage h (JStr ''handshake/syn'') \<and>
    js_get (ev_data e) ''type'' = JStr ''handshake/syn'' \<and>
    truthy (js_get (ev_data e) ''data'') \<longrightarrow>
    (let sid = js_get (js_get (ev_data e) ''data'') ''id'';
         w' = snd (handleEvents h cfg e w)
     in ch_id (channel w') = sid \<and>
        ch_origin (channel w') = Some (ev_origin e) \<and>
        ch_status (channel w') = Connecting \<and>
        onStatusUpdate_calls w' =
          onStatusUpdate_calls w @ (if cfg_onStatusUpdate cfg then [Connecting] else []) \<and>
        (isHandshakeMessage h (JStr ''handshake/syn-ack'') \<and> truthy sid \<and>
         ev_origin e \<noteq> [] \<and> ch_source (channel w') = Some s \<and>
         \<not> postMessage_throws h s
             \<lparr>msg_connectionId = sid, msg_data = JObj [(''id'', sid)],
              msg_domain = ''sanity/channels'', msg_from = cfg_id cfg,
              msg_id = uuid_calls w, msg_to = cfg_connectTo cfg,
              msg_type = ''handshake/syn-ack''\<rparr> (ev_origin e) \<longrightarrow>
         posted w' = posted w @
           [(s, \<lparr>msg_connectionId = sid, msg_data = JObj [(''id'', sid)],
                 msg_domain = ''sanity/channels'', msg_from = cfg_id cfg,
                 msg_id = uuid_calls w, msg_to = cfg_connectTo cfg,
                 msg_type = ''handshake/syn-ack''\<rparr>, ev_origin e)]))) \<and>
   (\<not> isLegacyHandshakeMessage h e \<and> isValidMessageEvent cfg e = Inr True \<and>
    \<not> origin_mismatch (channel w) e \<and>
    isHandshakeMessage h (JStr ''handshake/ack'') \<and>
    js_get (ev_data e) ''type'' = JStr ''handshake/ack'' \<and>
    truthy (js_get (ev_data e) ''data'') \<and>
    strict_eq (js_get (js_get (ev_data e) ''data'') ''id'') (ch_id (channel w)) \<longrightarrow>
    ch_status (channel (snd (handleEvents h cfg e w))) = Connected \<and>
    onStatusUpdate_calls (snd (handleEvents h cfg e w)) =
      onStatusUpdate_calls w @ (if cfg_onStatusUpdate cfg then [Connected] else [])) \<and>
   (ch_status (channel (snd (step h cfg c w))) = Connected \<and>
    ch_status (channel w) \<noteq> Connected \<longrightarrow>
    (\<exists>ev. c = Receive ev \<and> listening w \<and>
          \<not> isLegacyHandshakeMessage h ev \<and> isValidMessageEvent cfg ev = Inr True \<and>
          \<not> origin_mismatch (channel w) ev \<and>
          isHandshakeMessage h (JStr ''handshake/ack'') \<and>
          js_get (ev_data ev) ''type'' = JStr ''handshake/ack'' \<and>
          truthy (js_get (ev_data ev) ''data'') \<and>
          strict_eq (js_get (js_get (ev_data ev) ''data'') ''id'') (ch_id (channel w)))) \<and>
   (onStatusUpdate_calls (snd (step h cfg c w)) = onStatusUpdate_calls w @ rs \<and>
    Connected \<in> set rs \<longrightarrow>
    (\<exists>ev. c = Receive ev \<and> listening w \<and>
          \<not> isLegacyHandshakeMessage h ev \<and> isValidMessageEvent cfg ev = Inr True \<and>
          \<not> origin_mismatch (channel w) ev \<and>
          isHandshakeMessage h (JStr ''handshake/ack'') \<and>
          js_get (ev_data ev) ''type'' = JStr ''handshake/ack'' \<and>
          truthy (js_get (ev_data ev) ''data'') \<and>
          strict_eq (js_get (js_get (ev_data ev) ''data'') ''id'') (ch_id (channel w))))"
proof (intro conjI impI, goal_cases)
  case 1
  then show ?case by (rule syn_effects)
next
  case 2
  then show ?case using ack_effects[of h e cfg w] by blast
next
  case 3
  then show ?case using ack_effects[of h e cfg w] by blast
next
  case 4
  then show ?case by (elim conjE) (rule connected_only_by_ack; assumption)
next
  case 5
  then show ?case by (elim conjE) (rule reported_connected_only_by_ack; assumption)
qed

text \<open>
  On the started node the handshake-open with id \<^verbatim>\<open>'abc'\<close>; then, on the paired
  node, the handshake-confirm with the same id, as an event and as a call.
\<close>

theorem responder_handshake_witness:
  "ch_id (channel (snd (handleEvents reference_helpers overlays_config
                          (syn_event studio 1 ''abc'') started))) = JStr ''abc'' \<and>
   ch_origin (channel (snd (handleEvents reference_helpers overlays_config
                          (syn_event studio 1 ''abc'') started))) = Some studio \<and>
   ch_status (channel (snd (handleEvents reference_helpers overlays_config
                          (syn_event studio 1 ''abc'') started))) = Connecting \<and>
   onStatusUpdate_calls (snd (handleEvents reference_helpers overlays_config
                          (syn_event studio 1 ''abc'') started)) = [Connecting, Connecting] \<and>
   posted (snd (handleEvents reference_helpers overlays_config
                  (syn_event studio 1 ''abc'') started)) =
     [(1, \<lparr>msg_connectionId = JStr ''abc'', msg_data = JObj [(''id'', JStr ''abc'')],
           msg_domain = ''sanity/channels'', msg_from = ''overlays'',
           msg_id = 0, msg_to = ''composer'', msg_type = ''handshake/syn-ack''\<rparr>, studio)] \<and>
   ch_status (channel (snd (handleEvents reference_helpers overlays_config
                          (ack_event studio 1 ''abc'') paired))) = Connected \<and>
   onStatusUpdate_calls (snd (handleEvents reference_helpers overlays_config
                          (ack_event studio 1 ''abc'') paired)) =
     [Connecting, Connecting, Connected] \<and>
   ch_status (channel paired) \<noteq> Connected \<and>
   ch_status (channel (snd (step reference_helpers overlays_config
                              (Receive (ack_event studio 1 ''abc'')) paired))) = Connected \<and>
   (\<exists>ev. Receive (ack_event studio 1 ''abc'') = Receive ev \<and> listening paired \<and>
         isValidMessageEvent overlays_config ev = Inr True \<and>
         js_get (ev_data ev) ''type'' = JStr ''handshake/ack'' \<and>
         strict_eq (js_get (js_get (ev_data ev) ''data'') ''id'') (ch_id (channel paired)))"
proof -
  let ?syn = "syn_event studio 1 ''abc''"
  let ?ack = "ack_event studio 1 ''abc''"
  have src: "ch_source (channel (snd (handleEvents reference_helpers overlays_config ?syn started))) = Some 1"
    unfolding started_eq by (simp add: eval_defs)
  have syn_ok: "\<not> isLegacyHandshakeMessage reference_helpers ?syn \<and>
      isValidMessageEvent overlays_config ?syn = Inr True \<and>
      \<not> origin_mismatch (channel started) ?syn \<and>
      isHandshakeMessage reference_helpers (JStr ''handshake/syn'') \<and>
      js_get (ev_data ?syn) ''type'' = JStr ''handshake/syn'' \<and>
      truthy (js_get (ev_data ?syn) ''data'')"
    unfolding started_eq by (simp add: eval_defs)
  have reply_ok: "isHandshakeMessage reference_helpers (JStr ''handshake/syn-ack'') \<and>
      truthy (js_get (js_get (ev_data ?syn) ''data'') ''id'') \<and> ev_origin ?syn \<noteq> [] \<and>
      \<not> postMessage_throws reference_helpers 1
          \<lparr>msg_connectionId = js_get (js_get (ev_data ?syn) ''data'') ''id'',
           msg_data = JObj [(''id'', js_get (js_get (ev_data ?syn) ''data'') ''id'')],
           msg_domain = ''sanity/channels'', msg_from = cfg_id overlays_config,
           msg_id = uuid_calls started, msg_to = cfg_connectTo overlays_config,
           msg_type = ''handshake/syn-ack''\<rparr> (ev_origin ?syn)"
    by (simp add: eval_defs)
  have ack_ok: "\<not> isLegacyHandshakeMessage reference_helpers ?ack \<and>
      isValidMessageEvent overlays_config ?ack = Inr True \<and>
      \<not> origin_mismatch (channel paired) ?ack \<and>
      isHandshakeMessage reference_helpers (JStr ''handshake/ack'') \<and>
      js_get (ev_data ?ack) ''type'' = JStr ''handshake/ack'' \<and>
      truthy (js_get (ev_data ?ack) ''data'') \<and>
      strict_eq (js_get (js_get (ev_data ?ack) ''data'') ''id'') (ch_id (channel paired))"
    unfolding paired_eq by (simp add: eval_defs)
  have vals: "js_get (js_get (ev_data ?syn) ''data'') ''id'' = JStr ''abc''"
    "ev_origin ?syn = studio" "cfg_id overlays_config = ''overlays''"
    "cfg_connectTo overlays_config = ''composer''" "uuid_calls started = 0" "posted started = []"
    "onStatusUpdate_calls started = [Connecting]"
    "onStatusUpdate_calls paired = [Connecting, Connecting]"
    by (simp_all add: started_eq paired_eq syn_event_def event_from_def envelope_def
        overlays_config_def)
  have cb: "cfg_onStatusUpdate overlays_config" by (simp add: overlays_config_def)
  note on_syn = responder_handshake[of reference_helpers ?syn overlays_config started 1
                                       "Receive ?ack" "[Connected]"]
  note on_ack = responder_handshake[of reference_helpers ?ack overlays_config paired 1
                                       "Receive ?ack" "[Connected]"]
  have part1: "let sid = js_get (js_get (ev_data ?syn) ''data'') ''id'';
         w' = snd (handleEvents reference_helpers overlays_config ?syn started)
     in ch_id (channel w') = sid \<and>
        ch_origin (channel w') = Some (ev_origin ?syn) \<and>
        ch_status (channel w') = Connecting \<and>
        onStatusUpdate_calls w' =
          onStatusUpdate_calls started @
            (if cfg_onStatusUpdate overlays_config then [Connecting] else []) \<and>
        (isHandshakeMessage reference_helpers (JStr ''handshake/syn-ack'') \<and> truthy sid \<and>
         ev_origin ?syn \<noteq> [] \<and> ch_source (channel w') = Some 1 \<and>
         \<not> postMessage_throws reference_helpers 1
             \<lparr>msg_connectionId = sid, msg_data = JObj [(''id'', sid)],
              msg_domain = ''sanity/channels'', msg_from = cfg_id overlays_config,
              msg_id = uuid_calls started, msg_to = cfg_connectTo overlays_config,
              msg_type = ''handshake/syn-ack''\<rparr> (ev_origin ?syn) \<longrightarrow>
         posted w' = posted started @
           [(1, \<lparr>msg_connectionId = sid, msg_data = JObj [(''id'', sid)],
                 msg_domain = ''sanity/channels'', msg_from = cfg_id overlays_config,
                 msg_id = uuid_calls started, msg_to = cfg_connectTo overlays_config,
                 msg_type = ''handshake/syn-ack''\<rparr>, ev_origin ?syn)])"
    using conjunct1[OF on_syn] syn_ok by blast
  have part2: "ch_status (channel (snd (handleEvents reference_helpers overlays_config ?ack paired))) = Connected \<and>
     onStatusUpdate_calls (snd (handleEvents reference_helpers overlays_config ?ack paired)) =
       onStatusUpdate_calls paired @ (if cfg_onStatusUpdate overlays_config then [Connected] else [])"
    using conjunct1[OF conjunct2[OF on_ack]] ack_ok by blast
  have before: "ch_status (channel paired) \<noteq> Connected" "listening paired"
    by (simp_all add: paired_eq)
  have after: "ch_status (channel (snd (step reference_helpers overlays_config (Receive ?ack) paired))) = Connected"
    using part2 before(2) by simp
  have part3: "\<exists>ev. Receive ?ack = Receive ev \<and> listening paired \<and>
          \<not> isLegacyHandshakeMessage reference_helpers ev \<and>
          isValidMessageEvent overlays_config ev = Inr True \<and>
          \<not> origin_mismatch (channel paired) ev \<and>
          isHandshakeMessage reference_helpers (JStr ''handshake/ack'') \<and>
          js_get (ev_data ev) ''type'' = JStr ''handshake/ack'' \<and>
          truthy (js_get (ev_data ev) ''data'') \<and>
          strict_eq (js_get (js_get (ev_data ev) ''data'') ''id'') (ch_id (channel paired))"
    using conjunct1[OF conjunct2[OF conjunct2[OF on_ack]]] after before(1) by blast
  have part3': "\<exists>ev. Receive ?ack = Receive ev \<and> listening paired \<and>
         isValidMessageEvent overlays_config ev = Inr True \<and>
         js_get (ev_data ev) ''type'' = JStr ''handshake/ack'' \<and>
         strict_eq (js_get (js_get (ev_data ev) ''data'') ''id'') (ch_id (channel paired))"
    using part3 by blast
  have c1: "ch_id (channel (snd (handleEvents reference_helpers overlays_config ?syn started))) = JStr ''abc''"
    "ch_origin (channel (snd (handleEvents reference_helpers overlays_config ?syn started))) = Some studio"
    "ch_status (channel (snd (handleEvents reference_helpers overlays_config ?syn started))) = Connecting"
    "onStatusUpdate_calls (snd (handleEvents reference_helpers overlays_config ?syn started)) = [Connecting, Connecting]"
    using part1 cb unfolding Let_def vals by simp_all
  have c2: "posted (snd (handleEvents reference_helpers overlays_config ?syn started)) =
     [(1, \<lparr>msg_connectionId = JStr ''abc'', msg_data = JObj [(''id'', JStr ''abc'')],
           msg_domain = ''sanity/channels'', msg_from = ''overlays'',
           msg_id = 0, msg_to = ''composer'', msg_type = ''handshake/syn-ack''\<rparr>, studio)]"
    using part1 reply_ok src cb unfolding Let_def vals by simp
  have c3: "ch_status (channel (snd (handleEvents reference_helpers overlays_config ?ack paired))) = Connected"
    "onStatusUpdate_calls (snd (handleEvents reference_helpers overlays_config ?ack paired)) =
       [Connecting, Connecting, Connected]"
    using part2 cb unfolding vals by simp_all
  show ?thesis using c1 c2 c3 before(1) after part3' by blast
qed

text \<open>
  The claim as stated fails: no session id is minted. The id after a
  handshake-open is the one in its payload, and a second handshake-open with
  the same payload leaves the node with the session id it had.
\<close>

theorem responder_handshake_counterexample:
  "ch_id (channel paired) = JStr ''abc'' \<and>
   ch_id (channel (run reference_helpers overlays_config
                     [Receive (syn_event studio 1 ''abc'')] paired)) = JStr ''abc'' \<and>
   ch_id (channel (run reference_helpers overlays_config
                     [Receive (syn_event studio 1 ''chosen-by-the-peer'')] started)) =
     JStr ''chosen-by-the-peer''"
  unfolding paired_eq started_eq by (simp add: eval_defs)

subsection \<open>C7: events that are not envelopes\<close>

text \<open>
  C7. The claim asks that validation never throws, also for \<^verbatim>\<open>null\<close> event
  data. The code reads \<^verbatim>\<open>data.domain\<close> without a test of \<^verbatim>\<open>data\<close>: for an
  event whose data is \<^verbatim>\<open>null\<close> (\<^verbatim>\<open>postMessage(null, '*')\<close>),
  \<^verbatim>\<open>isValidMessageEvent\<close> throws a \<^verbatim>\<open>TypeError\<close>, and \<^verbatim>\<open>handleEvents\<close> lets
  it escape. (For data that is an object or a primitive the event is dropped
  without an exception: lemma \<open>noise_dropped\<close>.)
\<close>

theorem null_data_throws:
  "isValidMessageEvent overlays_config
     \<lparr>ev_data = JNull, ev_origin = studio, ev_source = Some 1\<rparr> = Inl TypeError \<and>
   handleEvents reference_helpers overlays_config
     \<lparr>ev_data = JNull, ev_origin = studio, ev_source = Some 1\<rparr> started =
     (Some TypeError, started)"
  by (simp add: handleEvents_def isValidMessageEvent_def get_prop_def reference_helpers_def)

subsection \<open>C8: dispatch to the application handler\<close>

text \<open>
  C8, as amended. For a valid envelope from the pinned origin whose session id
  is strictly equal to \<^verbatim>\<open>channel.id\<close> and whose type is neither a handshake
  type nor an internal type, the registered handler is called exactly once, with
  the type and the payload; and when the session id, the origin and the sink
  are truthy and the transport accepts the envelope, a \<^verbatim>\<open>channel/response\<close>
  whose payload refers to the envelope's \<^verbatim>\<open>id\<close> is posted. The handler is never
  called for a handshake-type envelope that carries a truthy payload, nor for
  \<^verbatim>\<open>channel/disconnect\<close>, nor for \<^verbatim>\<open>channel/response\<close>.
\<close>

theorem handler_dispatch:
  "(\<not> isLegacyHandshakeMessage h e \<and> isValidMessageEvent cfg e = Inr True \<and>
    Some (ev_origin e) = ch_origin (channel w) \<and>
    strict_eq (js_get (ev_data e) ''connectionId'') (ch_id (channel w)) \<and>
    \<not> isHandshakeMessage h (js_get (ev_data e) ''type'') \<and>
    \<not> isInternalMessage h (js_get (ev_data e) ''type'') \<and>
    isInternalMessage h (JStr ''channel/disconnect'') \<and>
    cfg_onEvent cfg \<longrightarrow>
    (let w' = snd (handleEvents h cfg e w);
         reply = \<lparr>msg_connectionId = ch_id (channel w),
                  msg_data = JObj [(''responseTo'', js_get (ev_data e) ''id'')],
                  msg_domain = ''sanity/channels'', msg_from = cfg_id cfg,
                  msg_id = uuid_calls w, msg_to = cfg_connectTo cfg,
                  msg_type = ''channel/response''\<rparr>
     in onEvent_calls w' =
          onEvent_calls w @ [(js_get (ev_data e) ''type'', js_get (ev_data e) ''data'')] \<and>
        (isInternalMessage h (JStr ''channel/response'') \<and> truthy (ch_id (channel w)) \<and>
         ev_origin e \<noteq> [] \<and> ch_source (channel w') = Some s \<and>
         \<not> postMessage_throws h s reply (ev_origin e) \<longrightarrow>
         posted w' = posted w @ [(s, reply, ev_origin e)]))) \<and>
   ((isHandshakeMessage h (js_get (ev_data e) ''type'') \<and> truthy (js_get (ev_data e) ''data'')) \<or>
    js_get (ev_data e) ''type'' = JStr ''channel/disconnect'' \<or>
    js_get (ev_data e) ''type'' = JStr ''channel/response'' \<longrightarrow>
    onEvent_calls (snd (handleEvents h cfg e w)) = onEvent_calls w)"
proof (intro conjI impI)
  assume a: "\<not> isLegacyHandshakeMessage h e \<and> isValidMessageEvent cfg e = Inr True \<and>
    Some (ev_origin e) = ch_origin (channel w) \<and>
    strict_eq (js_get (ev_data e) ''connectionId'') (ch_id (channel w)) \<and>
    \<not> isHandshakeMessage h (js_get (ev_data e) ''type'') \<and>
    \<not> isInternalMessage h (js_get (ev_data e) ''type'') \<and>
    isInternalMessage h (JStr ''channel/disconnect'') \<and>
    cfg_onEvent cfg"
  let ?ty = "js_get (ev_data e) ''type''"
  let ?pl = "js_get (ev_data e) ''data''"
  let ?rdat = "JObj [(''responseTo'', js_get (ev_data e) ''id'')]"
  let ?reply = "\<lparr>msg_connectionId = ch_id (channel w), msg_data = ?rdat,
                  msg_domain = ''sanity/channels'', msg_from = cfg_id cfg,
                  msg_id = uuid_calls w, msg_to = cfg_connectTo cfg,
                  msg_type = ''channel/response''\<rparr>"
  let ?w2 = "(update_source e w)\<lparr>onEvent_calls := onEvent_calls w @ [(?ty, ?pl)]\<rparr>"
  let ?w' = "snd (handleEvents h cfg e w)"
  have nd: "?ty \<noteq> JStr ''channel/disconnect''" using a by auto
  have he: "handleEvents h cfg e w = send h cfg ''channel/response'' ?rdat ?w2"
    using a nd handle_app[of h e cfg w] by simp
  have us: "posted (update_source e w) = posted w" "uuid_calls (update_source e w) = uuid_calls w"
    "ch_id (channel (update_source e w)) = ch_id (channel w)"
    "ch_origin (channel (update_source e w)) = ch_origin (channel w)"
    by (simp_all add: update_source_def)
  have f1: "onEvent_calls ?w' = onEvent_calls w @ [(?ty, ?pl)]"
    "ch_source (channel ?w') = ch_source (channel ?w2)"
    using he send_frame[of h cfg "''channel/response''" ?rdat ?w2] by simp_all
  have f2: "posted ?w' = posted w @ [(s, ?reply, ev_origin e)]"
    if b: "isInternalMessage h (JStr ''channel/response'') \<and> truthy (ch_id (channel w)) \<and>
         ev_origin e \<noteq> [] \<and> ch_source (channel ?w') = Some s \<and>
         \<not> postMessage_throws h s ?reply (ev_origin e)"
  proof -
    have src: "ch_source (channel ?w2) = Some s" using b f1(2) by simp
    have og: "ch_origin (channel ?w2) = Some (ev_origin e)" using a us by simp
    have "send h cfg ''channel/response'' ?rdat ?w2 =
           (None, ?w2\<lparr>uuid_calls := Suc (uuid_calls ?w2),
                    posted := posted ?w2 @
                      [(s, \<lparr>msg_connectionId = ch_id (channel ?w2), msg_data = ?rdat,
                            msg_domain = ''sanity/channels'', msg_from = cfg_id cfg,
                            msg_id = uuid_calls ?w2, msg_to = cfg_connectTo cfg,
                            msg_type = ''channel/response''\<rparr>,
                        ev_origin e)]\<rparr>)"
      apply (rule send_transmits)
      using b src og us by simp_all
    then show ?thesis using he us by simp
  qed
  show "let w' = ?w'; reply = ?reply
     in onEvent_calls w' = onEvent_calls w @ [(?ty, ?pl)] \<and>
        (isInternalMessage h (JStr ''channel/response'') \<and> truthy (ch_id (channel w)) \<and>
         ev_origin e \<noteq> [] \<and> ch_source (channel w') = Some s \<and>
         \<not> postMessage_throws h s reply (ev_origin e) \<longrightarrow>
         posted w' = posted w @ [(s, reply, ev_origin e)])"
    unfolding Let_def using f1(1) f2 by blast
next
  assume "(isHandshakeMessage h (js_get (ev_data e) ''type'') \<and> truthy (js_get (ev_data e) ''data'')) \<or>
    js_get (ev_data e) ''type'' = JStr ''channel/disconnect'' \<or>
    js_get (ev_data e) ''type'' = JStr ''channel/response''"
  then show "onEvent_calls (snd (handleEvents h cfg e w)) = onEvent_calls w"
    by (rule handler_untouched)
qed

text \<open>
  On the connected node, an application envelope \<^verbatim>\<open>ping\<close> of the session
  reaches the handler once and is answered; a \<^verbatim>\<open>channel/disconnect\<close> does not
  reach it.
\<close>

theorem handler_dispatch_witness:
  "onEvent_calls (snd (handleEvents reference_helpers overlays_config
      (event_from studio 1 (envelope (JStr ''abc'') ''ping'' (JNum 1))) connected_node)) =
     [(JStr ''ping'', JNum 1)] \<and>
   map payload_of (posted (snd (handleEvents reference_helpers overlays_config
      (event_from studio 1 (envelope (JStr ''abc'') ''ping'' (JNum 1))) connected_node))) =
     [(''handshake/syn-ack'', JObj [(''id'', JStr ''abc'')]),
      (''channel/response'', JObj [(''responseTo'', JStr ''m1'')])] \<and>
   onEvent_calls (snd (handleEvents reference_helpers overlays_config
      (event_from studio 1 (envelope (JStr ''abc'') ''channel/disconnect'' JUndefined))
      connected_node)) = []"
proof -
  let ?ping = "event_from studio 1 (envelope (JStr ''abc'') ''ping'' (JNum 1))"
  let ?bye = "event_from studio 1 (envelope (JStr ''abc'') ''channel/disconnect'' JUndefined)"
  let ?reply = "\<lparr>msg_connectionId = ch_id (channel connected_node),
                  msg_data = JObj [(''responseTo'', js_get (ev_data ?ping) ''id'')],
                  msg_domain = ''sanity/channels'', msg_from = cfg_id overlays_config,
                  msg_id = uuid_calls connected_node, msg_to = cfg_connectTo overlays_config,
                  msg_type = ''channel/response''\<rparr>"
  have ping_ok: "\<not> isLegacyHandshakeMessage reference_helpers ?ping \<and>
      isValidMessageEvent overlays_config ?ping = Inr True \<and>
      Some (ev_origin ?ping) = ch_origin (channel connected_node) \<and>
      strict_eq (js_get (ev_data ?ping) ''connectionId'') (ch_id (channel connected_node)) \<and>
      \<not> isHandshakeMessage reference_helpers (js_get (ev_data ?ping) ''type'') \<and>
      \<not> isInternalMessage reference_helpers (js_get (ev_data ?ping) ''type'') \<and>
      isInternalMessage reference_helpers (JStr ''channel/disconnect'') \<and>
      cfg_onEvent overlays_config"
    unfolding connected_node_eq by (simp add: eval_defs)
  have src: "ch_source (channel (snd (handleEvents reference_helpers overlays_config ?ping
                                        connected_node))) = Some 1"
    unfolding connected_node_eq by (simp add: eval_defs)
  have reply_ok: "isInternalMessage reference_helpers (JStr ''channel/response'') \<and>
      truthy (ch_id (channel connected_node)) \<and> ev_origin ?ping \<noteq> [] \<and>
      \<not> postMessage_throws reference_helpers 1 ?reply (ev_origin ?ping)"
    unfolding connected_node_eq by (simp add: eval_defs)
  have bye_ok: "js_get (ev_data ?bye) ''type'' = JStr ''channel/disconnect''"
    by (simp add: event_from_def envelope_def)
  from handler_dispatch[of reference_helpers ?ping overlays_config connected_node 1]
  have part1: "let w' = snd (handleEvents reference_helpers overlays_config ?ping connected_node);
         reply = ?reply
     in onEvent_calls w' =
          onEvent_calls connected_node @
            [(js_get (ev_data ?ping) ''type'', js_get (ev_data ?ping) ''data'')] \<and>
        (isInternalMessage reference_helpers (JStr ''channel/response'') \<and>
         truthy (ch_id (channel connected_node)) \<and>
         ev_origin ?ping \<noteq> [] \<and> ch_source (channel w') = Some 1 \<and>
         \<not> postMessage_throws reference_helpers 1 reply (ev_origin ?ping) \<longrightarrow>
         posted w' = posted connected_node @ [(1, reply, ev_origin ?ping)])"
    using ping_ok by blast
  from handler_dispatch[of reference_helpers ?bye overlays_config connected_node 1]
  have part2: "onEvent_calls (snd (handleEvents reference_helpers overlays_config ?bye
                                     connected_node)) = onEvent_calls connected_node"
    using bye_ok by blast
  have c1: "onEvent_calls (snd (handleEvents reference_helpers overlays_config ?ping
                                  connected_node)) =
              onEvent_calls connected_node @
                [(js_get (ev_data ?ping) ''type'', js_get (ev_data ?ping) ''data'')]"
    using part1 unfolding Let_def by blast
  have c2: "posted (snd (handleEvents reference_helpers overlays_config ?ping connected_node)) =
              posted connected_node @ [(1, ?reply, ev_origin ?ping)]"
    using part1 reply_ok src unfolding Let_def by blast
  have v1: "onEvent_calls connected_node @
              [(js_get (ev_data ?ping) ''type'', js_get (ev_data ?ping) ''data'')] =
            [(JStr ''ping'', JNum 1)]"
    by (simp add: connected_node_eq event_from_def envelope_def)
  have v2: "map payload_of (posted connected_node @ [(1, ?reply, ev_origin ?ping)]) =
            [(''handshake/syn-ack'', JObj [(''id'', JStr ''abc'')]),
             (''channel/response'', JObj [(''responseTo'', JStr ''m1'')])]"
    by (simp add: connected_node_eq event_from_def envelope_def)
  have v3: "onEvent_calls connected_node = []" by (simp add: connected_node_eq)
  show ?thesis using c1 c2 part2 v1 v2 v3 by simp
qed

text \<open>
  The claim as stated fails twice. A handshake-type envelope without a payload
  is not taken by the handshake branch: on the paired node a
  \<^verbatim>\<open>handshake/ack\<close> with the right session id and no payload is handed to the
  application handler. And the response is only posted when \<^verbatim>\<open>send\<close> can
  transmit: a node that was paired and addressed by events without a source
  has no sink, calls the handler for \<^verbatim>\<open>ping\<close> and posts nothing.
\<close>

theorem handler_dispatch_counterexample:
  "onEvent_calls (snd (handleEvents reference_helpers overlays_config
      (event_from studio 1 (envelope (JStr ''abc'') ''handshake/ack'' JUndefined)) paired)) =
     [(JStr ''handshake/ack'', JUndefined)] \<and>
   onEvent_calls (run reference_helpers overlays_config
      [Receive \<lparr>ev_data = envelope JNull ''handshake/syn'' (JObj [(''id'', JStr ''abc'')]),
                ev_origin = studio, ev_source = None\<rparr>,
       Receive \<lparr>ev_data = envelope (JStr ''abc'') ''ping'' (JNum 1),
                ev_origin = studio, ev_source = None\<rparr>] started) =
     [(JStr ''ping'', JNum 1)] \<and>
   posted (run reference_helpers overlays_config
      [Receive \<lparr>ev_data = envelope JNull ''handshake/syn'' (JObj [(''id'', JStr ''abc'')]),
                ev_origin = studio, ev_source = None\<rparr>,
       Receive \<lparr>ev_data = envelope (JStr ''abc'') ''ping'' (JNum 1),
                ev_origin = studio, ev_source = None\<rparr>] started) = []"
  unfolding paired_eq started_eq by (simp add: eval_defs)

subsection \<open>C9: the peer sink\<close>

text \<open>
  C9, as amended. \<^verbatim>\<open>handleEvents\<close> replaces \<^verbatim>\<open>channel.source\<close> exactly when
  the event is not a legacy handshake, is a valid envelope addressed to this
  node by its peer, carries a source, and passes the origin check, that is,
  either no non-empty origin is pinned yet or the sender's origin is the pinned
  one; the new value is the event's source. In every other case, in particular
  for an event from a non-matching origin once an origin is pinned, the sink
  is left as it is.
\<close>

theorem source_update:
  "ch_source (channel (snd (handleEvents h cfg e w))) =
     (if \<not> isLegacyHandshakeMessage h e \<and> isValidMessageEvent cfg e = Inr True \<and>
         \<not> origin_mismatch (channel w) e \<and> ev_source e \<noteq> None
      then ev_source e else ch_source (channel w))"
proof -
  obtain r w' where hw: "handleEvents h cfg e w = (r, w')" by (cases "handleEvents h cfg e w")
  have "ch_source (channel w') =
     (if \<not> isLegacyHandshakeMessage h e \<and> isValidMessageEvent cfg e = Inr True \<and>
         \<not> origin_mismatch (channel w) e \<and> ev_source e \<noteq> None
      then ev_source e else ch_source (channel w))"
    using hw
    by (auto simp: handleEvents_def Let_def update_source_def
        split: sum.splits bool.splits prod.splits option.splits if_splits
        dest!: send_sourceD setConnectionStatus_sourceD)
  then show ?thesis using hw by simp
qed

text \<open>
  On the paired node: an envelope from the pinned origin that arrives from a
  new window replaces the sink; one from another origin does not.
\<close>

theorem source_update_witness:
  "ch_source (channel (snd (handleEvents reference_helpers overlays_config
      (event_from studio 5 (envelope (JStr ''abc'') ''ping'' (JNum 1))) paired))) = Some 5 \<and>
   ch_source (channel (snd (handleEvents reference_helpers overlays_config
      (event_from ''https://evil.example'' 6 (envelope (JStr ''abc'') ''ping'' (JNum 1)))
      paired))) = Some 1"
proof -
  let ?good = "event_from studio 5 (envelope (JStr ''abc'') ''ping'' (JNum 1))"
  let ?evil = "event_from ''https://evil.example'' 6 (envelope (JStr ''abc'') ''ping'' (JNum 1))"
  have g: "\<not> isLegacyHandshakeMessage reference_helpers ?good \<and>
           isValidMessageEvent overlays_config ?good = Inr True \<and>
           \<not> origin_mismatch (channel paired) ?good \<and> ev_source ?good = Some 5"
    unfolding paired_eq by (simp add: eval_defs)
  have b: "origin_mismatch (channel paired) ?evil \<and> ch_source (channel paired) = Some 1"
    unfolding paired_eq by (simp add: eval_defs)
  show ?thesis
    using source_update[of reference_helpers overlays_config ?good paired]
          source_update[of reference_helpers overlays_config ?evil paired] g b
    by simp
qed

text \<open>
  The claim as stated fails before pinning: the started node has no origin and
  no sink, and a valid envelope from any origin sets the sink.
\<close>

theorem source_update_counterexample:
  "ch_origin (channel started) = None \<and> ch_source (channel started) = None \<and>
   ch_source (channel (snd (handleEvents reference_helpers overlays_config
      (event_from ''https://anywhere.example'' 7 (envelope JNull ''ping'' JUndefined))
      started))) = Some 7"
  unfolding started_eq by (simp add: eval_defs)

subsection \<open>C10: inbound responses\<close>

text \<open>
  C10. An inbound event whose envelope has type \<^verbatim>\<open>channel/response\<close> fails
  \<^verbatim>\<open>isValidMessageEvent\<close>, whatever its session id and origin, and
  \<^verbatim>\<open>handleEvents\<close> returns without an exception and with the node as it
  was: no change of the channel, no call of the handler or of the status
  callback, nothing posted. (The only trace is the \<^verbatim>\<open>console.error\<close> line when
  the event is a legacy handshake.) The state of a node has no table of
  pending requests.
\<close>

theorem response_ignored:
  assumes "js_get (ev_data e) ''type'' = JStr ''channel/response''"
  shows "isValidMessageEvent cfg e = Inr False \<and>
         handleEvents h cfg e w =
           (None, if isLegacyHandshakeMessage h e
                  then w\<lparr>console_errors := Suc (console_errors w)\<rparr> else w)"
proof -
  have v: "isValidMessageEvent cfg e = Inr False"
    using assms by (rule response_invalid)
  show ?thesis using v by (simp add: handleEvents_def)
qed

theorem response_ignored_witness:
  "handleEvents reference_helpers overlays_config
     (event_from studio 1
        (envelope (JStr ''abc'') ''channel/response'' (JObj [(''responseTo'', JStr ''m0'')])))
     connected_node = (None, connected_node)"
proof -
  have t: "js_get (ev_data (event_from studio 1
             (envelope (JStr ''abc'') ''channel/response'' (JObj [(''responseTo'', JStr ''m0'')]))))
             ''type'' = JStr ''channel/response''"
    by (simp add: event_from_def envelope_def)
  show ?thesis
    using response_ignored[OF t, of overlays_config reference_helpers connected_node]
    by (simp add: reference_helpers_def)
qed

end
